theory Spec2Isabelle
  imports Complex_Main
begin

section \<open>The canvas editor component (CanvasWorkspace)\<close>

text \<open>
  The component keeps three refs: \<open>fabricCanvasRef\<close> (the fabric canvas, null until the
  mount effect has run), \<open>historyRef\<close> (a \<open>string[]\<close> of snapshots) and
  \<open>historyIndexRef\<close> (a number, initially \<open>-1\<close>). The canvas itself belongs to the
  graphics library: its objects have identity (the active object is one of the canvas's
  objects, and \<open>set\<close> mutates it in place), so the canvas is a store of objects addressed
  by references, the list of references in drawing order and the active reference.
  Loading a snapshot is asynchronous in the library: \<open>pendingLoads\<close> holds the loads
  that \<open>loadFromJSON\<close> has been asked for and has not finished, oldest first, each as
  what it will do to the canvas.
\<close>

record fabric_object =
  otype :: string
  left :: real
  top :: real
  width :: "real option"
  height :: "real option"
  radius :: "real option"
  fill :: string
  opacity :: real
  globalCompositeOperation :: string

record canvas =
  objects :: "nat list"
  heap :: "nat \<Rightarrow> fabric_object"
  activeObject :: "nat option"
  nextRef :: nat

record workspace =
  fabricCanvasRef :: "canvas option"
  historyRef :: "string list"
  historyIndexRef :: int
  pendingLoads :: "(canvas \<Rightarrow> canvas) list"

definition initial_workspace :: workspace where
  "initial_workspace =
     \<lparr>fabricCanvasRef = None, historyRef = [], historyIndexRef = - 1, pendingLoads = []\<rparr>"

text \<open>
  The mount effect assigns \<open>new Canvas(...)\<close>, a canvas without objects, to
  \<open>fabricCanvasRef.current\<close>. A reference that was never allocated reads as
  \<open>unallocated\<close>.
\<close>

definition unallocated :: fabric_object where
  "unallocated =
     \<lparr>otype = [], left = 0, top = 0, width = None, height = None, radius = None,
      fill = [], opacity = 1, globalCompositeOperation = []\<rparr>"

definition new_canvas :: canvas where
  "new_canvas = \<lparr>objects = [], heap = (\<lambda>_. unallocated), activeObject = None, nextRef = 0\<rparr>"

subsection \<open>JavaScript arrays\<close>

text \<open>
  \<open>xs.slice(0, e)\<close>: a negative \<open>e\<close> counts from the end, and both ends are clamped to
  the array. \<open>xs[i]\<close> is \<open>undefined\<close> outside the array.
\<close>

definition slice0 :: "'a list \<Rightarrow> int \<Rightarrow> 'a list" where
  "slice0 xs e =
     (let n = int (length xs);
          k = (if e < 0 then max (n + e) 0 else min e n)
      in take (nat k) xs)"

definition at_index :: "'a list \<Rightarrow> int \<Rightarrow> 'a option" where
  "at_index xs i = (if 0 \<le> i \<and> i < int (length xs) then Some (xs ! nat i) else None)"

subsection \<open>The history buffer\<close>

text \<open>
  \<open>saveHistory\<close>, \<open>undo\<close> and \<open>redo\<close> as written. The library's serializer
  (\<open>JSON.stringify(canvas.toJSON())\<close>) and its loader
  (\<open>canvas.loadFromJSON(JSON.parse(json), ...)\<close>) are parameters \<open>toJSON\<close> and
  \<open>loadFromJSON\<close>. The call to the loader only starts the load: when \<open>undo\<close> or
  \<open>redo\<close> returns, the cursor has moved and the canvas is as it was.
\<close>

definition saveHistory :: "(canvas \<Rightarrow> string) \<Rightarrow> workspace \<Rightarrow> workspace" where
  "saveHistory toJSON s =
     (case fabricCanvasRef s of
        None \<Rightarrow> s
      | Some c \<Rightarrow>
          (let json = toJSON c;
               i = historyIndexRef s + 1;
               h = slice0 (historyRef s) i @ [json]
           in if length h > 50
              then s\<lparr>historyRef := tl h, historyIndexRef := i - 1\<rparr>
              else s\<lparr>historyRef := h, historyIndexRef := i\<rparr>))"

text \<open>
  Reading \<open>historyRef.current[i]\<close> outside the buffer gives \<open>undefined\<close>, on which
  \<open>JSON.parse\<close> throws: the cursor has moved by then and no load is started.
\<close>

definition restore :: "(string \<Rightarrow> canvas \<Rightarrow> canvas) \<Rightarrow> int \<Rightarrow> workspace \<Rightarrow> workspace" where
  "restore loadFromJSON i s =
     (case at_index (historyRef s) i of
        None \<Rightarrow> s\<lparr>historyIndexRef := i\<rparr>
      | Some json \<Rightarrow>
          s\<lparr>historyIndexRef := i, pendingLoads := pendingLoads s @ [loadFromJSON json]\<rparr>)"

definition undo :: "(string \<Rightarrow> canvas \<Rightarrow> canvas) \<Rightarrow> workspace \<Rightarrow> workspace" where
  "undo loadFromJSON s =
     (case fabricCanvasRef s of
        None \<Rightarrow> s
      | Some c \<Rightarrow>
          if historyIndexRef s \<le> 0 then s
          else restore loadFromJSON (historyIndexRef s - 1) s)"

definition redo :: "(string \<Rightarrow> canvas \<Rightarrow> canvas) \<Rightarrow> workspace \<Rightarrow> workspace" where
  "redo loadFromJSON s =
     (case fabricCanvasRef s of
        None \<Rightarrow> s
      | Some c \<Rightarrow>
          if historyIndexRef s \<ge> int (length (historyRef s)) - 1 then s
          else restore loadFromJSON (historyIndexRef s + 1) s)"

subsection \<open>Editing operations\<close>

text \<open>
  The library calls the component makes: \<open>obj.set(key, value)\<close> mutates the object
  behind a reference, \<open>canvas.add\<close> puts a new object on top, \<open>canvas.remove\<close> takes the
  first occurrence of a reference out of the object list (and drops the selection when
  the removed object was the active one), \<open>canvas.getObjects()\<close> returns a copy of the
  object list. \<open>renderAll\<close> only repaints.
\<close>

definition obj_set :: "nat \<Rightarrow> (fabric_object \<Rightarrow> fabric_object) \<Rightarrow> canvas \<Rightarrow> canvas" where
  "obj_set r f c = c\<lparr>heap := (heap c)(r := f (heap c r))\<rparr>"

definition canvas_add :: "fabric_object \<Rightarrow> canvas \<Rightarrow> nat \<times> canvas" where
  "canvas_add ob c =
     (nextRef c,
      c\<lparr>objects := objects c @ [nextRef c],
        heap := (heap c)(nextRef c := ob),
        nextRef := Suc (nextRef c)\<rparr>)"

definition canvas_remove :: "nat \<Rightarrow> canvas \<Rightarrow> canvas" where
  "canvas_remove r c =
     c\<lparr>objects := remove1 r (objects c),
       activeObject := (if activeObject c = Some r then None else activeObject c)\<rparr>"

definition setActiveObject :: "nat \<Rightarrow> canvas \<Rightarrow> canvas" where
  "setActiveObject r c = c\<lparr>activeObject := Some r\<rparr>"

text \<open>The handlers registered for \<open>object:modified\<close> and \<open>object:added\<close>.\<close>

definition on_object_modified :: "(canvas \<Rightarrow> string) \<Rightarrow> workspace \<Rightarrow> workspace" where
  "on_object_modified toJSON s = saveHistory toJSON s"

definition on_object_added :: "(canvas \<Rightarrow> string) \<Rightarrow> workspace \<Rightarrow> workspace" where
  "on_object_added toJSON s = saveHistory toJSON s"

text \<open>
  The oldest pending load finishes: the library replaces the canvas's contents by the
  loaded ones and fires \<open>object:added\<close> once for every object it has put on the
  canvas, so the handler above runs that many times, each time on the loaded canvas.
  (A load is only ever started on a canvas, and the ref is never set back to null.)
\<close>

definition load_completes :: "(canvas \<Rightarrow> string) \<Rightarrow> workspace \<Rightarrow> workspace" where
  "load_completes toJSON s =
     (case pendingLoads s of
        [] \<Rightarrow> s
      | load # rest \<Rightarrow>
          (case fabricCanvasRef s of
             None \<Rightarrow> s\<lparr>pendingLoads := rest\<rparr>
           | Some c \<Rightarrow>
               (on_object_added toJSON ^^ length (objects (load c)))
                 (s\<lparr>fabricCanvasRef := Some (load c), pendingLoads := rest\<rparr>)))"

text \<open>
  The effect on \<open>selectedColor\<close> (an optional string prop; \<open>undefined\<close> and the empty
  string are falsy), and the imperative handle's \<open>setOpacity\<close> and \<open>setBlendMode\<close>.
\<close>

definition edit_active ::
  "(canvas \<Rightarrow> string) \<Rightarrow> (fabric_object \<Rightarrow> fabric_object) \<Rightarrow> canvas \<Rightarrow> workspace \<Rightarrow> workspace" where
  "edit_active toJSON f c s =
     (case activeObject c of
        None \<Rightarrow> s
      | Some r \<Rightarrow>
          if otype (heap c r) \<noteq> ''image''
          then saveHistory toJSON (s\<lparr>fabricCanvasRef := Some (obj_set r f c)\<rparr>)
          else s)"

definition applySelectedColor :: "(canvas \<Rightarrow> string) \<Rightarrow> string option \<Rightarrow> workspace \<Rightarrow> workspace" where
  "applySelectedColor toJSON selectedColor s =
     (case fabricCanvasRef s of
        None \<Rightarrow> s
      | Some c \<Rightarrow>
          (case selectedColor of
             None \<Rightarrow> s
           | Some col \<Rightarrow>
               if col = [] then s
               else edit_active toJSON (\<lambda>ob. ob\<lparr>fill := col\<rparr>) c s))"

definition setOpacity :: "(canvas \<Rightarrow> string) \<Rightarrow> real \<Rightarrow> workspace \<Rightarrow> workspace" where
  "setOpacity toJSON opac s =
     (case fabricCanvasRef s of
        None \<Rightarrow> s
      | Some c \<Rightarrow> edit_active toJSON (\<lambda>ob. ob\<lparr>opacity := opac / 100\<rparr>) c s)"

definition setBlendMode :: "(canvas \<Rightarrow> string) \<Rightarrow> string \<Rightarrow> workspace \<Rightarrow> workspace" where
  "setBlendMode toJSON mode s =
     (case fabricCanvasRef s of
        None \<Rightarrow> s
      | Some c \<Rightarrow> edit_active toJSON (\<lambda>ob. ob\<lparr>globalCompositeOperation := mode\<rparr>) c s)"

text \<open>
  \<open>addRectangle\<close> and \<open>addCircle\<close>: \<open>canvas.add\<close> fires \<open>object:added\<close>, whose
  handler saves a snapshot; the function then selects the new object and saves again.
\<close>

definition fill_or_default :: "string option \<Rightarrow> string" where
  "fill_or_default selectedColor =
     (case selectedColor of
        None \<Rightarrow> ''#C0C0C0''
      | Some col \<Rightarrow> if col = [] then ''#C0C0C0'' else col)"

definition new_rect :: "string option \<Rightarrow> fabric_object" where
  "new_rect selectedColor =
     \<lparr>otype = ''rect'', left = 100, top = 100, width = Some 150, height = Some 100,
      radius = None, fill = fill_or_default selectedColor, opacity = 7 / 10,
      globalCompositeOperation = ''multiply''\<rparr>"

definition new_circle :: "string option \<Rightarrow> fabric_object" where
  "new_circle selectedColor =
     \<lparr>otype = ''circle'', left = 200, top = 200, width = None, height = None,
      radius = Some 50, fill = fill_or_default selectedColor, opacity = 7 / 10,
      globalCompositeOperation = ''multiply''\<rparr>"

definition add_shape :: "(canvas \<Rightarrow> string) \<Rightarrow> fabric_object \<Rightarrow> workspace \<Rightarrow> workspace" where
  "add_shape toJSON ob s =
     (case fabricCanvasRef s of
        None \<Rightarrow> s
      | Some c \<Rightarrow>
          (let (r, c1) = canvas_add ob c;
               s1 = on_object_added toJSON (s\<lparr>fabricCanvasRef := Some c1\<rparr>);
               s2 = s1\<lparr>fabricCanvasRef := Some (setActiveObject r c1)\<rparr>
           in saveHistory toJSON s2))"

definition addRectangle :: "(canvas \<Rightarrow> string) \<Rightarrow> string option \<Rightarrow> workspace \<Rightarrow> workspace" where
  "addRectangle toJSON selectedColor s = add_shape toJSON (new_rect selectedColor) s"

definition addCircle :: "(canvas \<Rightarrow> string) \<Rightarrow> string option \<Rightarrow> workspace \<Rightarrow> workspace" where
  "addCircle toJSON selectedColor s = add_shape toJSON (new_circle selectedColor) s"

text \<open>
  \<open>resetCanvas\<close>: a \<open>forEach\<close> over the copy that \<open>getObjects()\<close> returns, removing
  each object whose type is not \<open>image\<close>. It does not save a snapshot.
\<close>

definition reset_step :: "canvas \<Rightarrow> nat \<Rightarrow> canvas" where
  "reset_step c r = (if otype (heap c r) \<noteq> ''image'' then canvas_remove r c else c)"

definition resetCanvas :: "workspace \<Rightarrow> workspace" where
  "resetCanvas s =
     (case fabricCanvasRef s of
        None \<Rightarrow> s
      | Some c \<Rightarrow> s\<lparr>fabricCanvasRef := Some (foldl reset_step c (objects c))\<rparr>)"

subsection \<open>The states the component can be in\<close>

text \<open>
  The refs start as above. \<open>fabricCanvasRef.current\<close> is assigned a canvas by the mount
  effect and never set back to null; between the component's own functions the library
  may change the canvas (dragging, loading an image, \<open>loadCanvasJSON\<close>) and may finish
  a load that \<open>undo\<close> or \<open>redo\<close> has started. The history refs are written by
  \<open>saveHistory\<close>, \<open>undo\<close> and \<open>redo\<close> only.
\<close>

datatype event =
    ObjectModified
  | ObjectAdded
  | SelectedColor "string option"
  | SetOpacity real
  | SetBlendMode string
  | AddRectangle "string option"
  | AddCircle "string option"
  | ResetCanvas
  | Undo
  | Redo
  | LoadCompletes

fun step ::
  "(canvas \<Rightarrow> string) \<Rightarrow> (string \<Rightarrow> canvas \<Rightarrow> canvas) \<Rightarrow> event \<Rightarrow> workspace \<Rightarrow> workspace" where
  "step J L ObjectModified s = on_object_modified J s"
| "step J L ObjectAdded s = on_object_added J s"
| "step J L (SelectedColor col) s = applySelectedColor J col s"
| "step J L (SetOpacity v) s = setOpacity J v s"
| "step J L (SetBlendMode m) s = setBlendMode J m s"
| "step J L (AddRectangle col) s = addRectangle J col s"
| "step J L (AddCircle col) s = addCircle J col s"
| "step J L ResetCanvas s = resetCanvas s"
| "step J L Undo s = undo L s"
| "step J L Redo s = redo L s"
| "step J L LoadCompletes s = load_completes J s"

inductive reachable ::
  "(canvas \<Rightarrow> string) \<Rightarrow> (string \<Rightarrow> canvas \<Rightarrow> canvas) \<Rightarrow> workspace \<Rightarrow> bool"
  for J :: "canvas \<Rightarrow> string" and L :: "string \<Rightarrow> canvas \<Rightarrow> canvas" where
  r_init: "reachable J L initial_workspace"
| r_canvas: "reachable J L s \<Longrightarrow> reachable J L (s\<lparr>fabricCanvasRef := Some c\<rparr>)"
| r_step: "reachable J L s \<Longrightarrow> reachable J L (step J L e s)"

text \<open>
  What holds in every such state: the cursor is \<open>-1\<close> on an empty buffer and inside the
  buffer otherwise, a buffer with entries has a canvas, and the buffer has at most 50
  entries.
\<close>

definition cursor_ok :: "workspace \<Rightarrow> bool" where
  "cursor_ok s \<longleftrightarrow>
     (if historyRef s = [] then historyIndexRef s = - 1
      else 0 \<le> historyIndexRef s \<and> historyIndexRef s < int (length (historyRef s))
           \<and> fabricCanvasRef s \<noteq> None)
     \<and> length (historyRef s) \<le> 50"

section \<open>The HTTP routes and the schema\<close>

subsection \<open>Tables\<close>

text \<open>
  The five tables of the schema, one record per row type. Timestamps are points of an
  abstract clock; \<open>jsonb\<close> and \<open>numeric\<close> columns hold their text.
\<close>

record project =
  project_id :: string
  project_name :: string
  project_description :: "string option"
  project_previewImageUrl :: "string option"
  project_createdAt :: nat
  project_updatedAt :: nat

record project_image =
  image_id :: string
  image_projectId :: string
  originalImagePath :: string
  mimeType :: string
  image_width :: int
  image_height :: int
  image_createdAt :: nat

record color_region =
  region_id :: string
  region_projectId :: string
  region_name :: string
  fabricObject :: string
  fillHex :: string
  region_opacity :: string
  blendMode :: string
  zIndex :: int
  region_createdAt :: nat

record recent_color =
  recent_id :: string
  recent_projectId :: "string option"
  hex :: string
  colorCode :: "string option"
  colorName :: "string option"
  usedAt :: nat

record canvas_state =
  state_id :: string
  state_projectId :: string
  canvasJson :: string
  zoom :: string
  state_updatedAt :: nat

record database =
  projects :: "project list"
  projectImages :: "project_image list"
  colorRegions :: "color_region list"
  recentColors :: "recent_color list"
  canvasStates :: "canvas_state list"

text \<open>
  What the insert validators return. A key the body leaves out is \<open>None\<close>; for a
  nullable column \<open>Some None\<close> is an explicit null. The validators themselves are
  generated by a library from the tables and are parameters of the handlers
  (\<open>Inl\<close> is the validation error they throw).
\<close>

record insert_project =
  ip_name :: string
  ip_description :: "string option option"
  ip_previewImageUrl :: "string option option"

record canvas_fields =
  cf_canvasJson :: string
  cf_zoom :: "string option"

subsection \<open>Responses\<close>

datatype 'e payload =
    Message string
  | MessageWithError string 'e
  | ProjectRow project
  | ProjectDetail project "project_image list" "color_region list" "canvas_state option"
  | CanvasStateRow canvas_state
  | Uploaded string string nat string

record 'e response =
  status :: nat
  body :: "'e payload"

definition json_ok :: "'e payload \<Rightarrow> 'e response" where
  "json_ok b = \<lparr>status = 200, body = b\<rparr>"

definition json_status :: "nat \<Rightarrow> 'e payload \<Rightarrow> 'e response" where
  "json_status n b = \<lparr>status = n, body = b\<rparr>"

subsection \<open>Queries\<close>

text \<open>
  The ORM calls the routes make. Each handler takes a flag \<open>dbOk\<close>: when it is false
  the database call rejects, and the handler's \<open>catch\<close> answers 500.
\<close>

definition select_project :: "database \<Rightarrow> string \<Rightarrow> project list" where
  "select_project db i = take 1 (filter (\<lambda>p. project_id p = i) (projects db))"

definition select_images :: "database \<Rightarrow> string \<Rightarrow> project_image list" where
  "select_images db i = filter (\<lambda>x. image_projectId x = i) (projectImages db)"

definition select_regions :: "database \<Rightarrow> string \<Rightarrow> color_region list" where
  "select_regions db i = filter (\<lambda>x. region_projectId x = i) (colorRegions db)"

definition select_canvas :: "database \<Rightarrow> string \<Rightarrow> canvas_state list" where
  "select_canvas db i = take 1 (filter (\<lambda>x. state_projectId x = i) (canvasStates db))"

text \<open>\<open>update(projects).set({...validated, updatedAt}).where(eq(projects.id, id))\<close>:
  a key that is left out keeps the row's value.\<close>

definition set_project :: "insert_project \<Rightarrow> nat \<Rightarrow> project \<Rightarrow> project" where
  "set_project v now p =
     p\<lparr>project_name := ip_name v,
       project_description :=
         (case ip_description v of None \<Rightarrow> project_description p | Some d \<Rightarrow> d),
       project_previewImageUrl :=
         (case ip_previewImageUrl v of None \<Rightarrow> project_previewImageUrl p | Some u \<Rightarrow> u),
       project_updatedAt := now\<rparr>"

definition update_project :: "insert_project \<Rightarrow> nat \<Rightarrow> string \<Rightarrow> database \<Rightarrow> database" where
  "update_project v now i db =
     db\<lparr>projects := map (\<lambda>p. if project_id p = i then set_project v now p else p) (projects db)\<rparr>"

text \<open>
  \<open>delete(projects).where(eq(projects.id, id))\<close>. The foreign keys of the four other
  tables are declared \<open>onDelete: 'cascade'\<close>: when a project row goes, the rows that
  reference it go with it.
\<close>

definition delete_project_rows :: "string \<Rightarrow> database \<Rightarrow> database" where
  "delete_project_rows i db =
     (let hit = (i \<in> set (map project_id (projects db)))
      in db\<lparr>projects := filter (\<lambda>p. project_id p \<noteq> i) (projects db),
            projectImages := filter (\<lambda>x. \<not> (hit \<and> image_projectId x = i)) (projectImages db),
            colorRegions := filter (\<lambda>x. \<not> (hit \<and> region_projectId x = i)) (colorRegions db),
            recentColors := filter (\<lambda>x. \<not> (hit \<and> recent_projectId x = Some i)) (recentColors db),
            canvasStates := filter (\<lambda>x. \<not> (hit \<and> state_projectId x = i)) (canvasStates db)\<rparr>)"

text \<open>The row an update of \<open>canvas_states\<close> leaves, and the row an insert creates
  (\<open>zoom\<close> defaults to \<open>'1'\<close>; the id comes from \<open>gen_random_uuid()\<close>).\<close>

definition set_canvas_state :: "string \<Rightarrow> canvas_fields \<Rightarrow> nat \<Rightarrow> canvas_state \<Rightarrow> canvas_state" where
  "set_canvas_state i f now c =
     c\<lparr>state_projectId := i,
       canvasJson := cf_canvasJson f,
       zoom := (case cf_zoom f of None \<Rightarrow> zoom c | Some z \<Rightarrow> z),
       state_updatedAt := now\<rparr>"

definition new_canvas_state :: "string \<Rightarrow> string \<Rightarrow> canvas_fields \<Rightarrow> nat \<Rightarrow> canvas_state" where
  "new_canvas_state newId i f now =
     \<lparr>state_id = newId, state_projectId = i, canvasJson = cf_canvasJson f,
      zoom = (case cf_zoom f of None \<Rightarrow> ''1'' | Some z \<Rightarrow> z),
      state_updatedAt = now\<rparr>"

subsection \<open>Route handlers\<close>

definition get_project :: "bool \<Rightarrow> database \<Rightarrow> string \<Rightarrow> 'e response" where
  "get_project dbOk db i =
     (if \<not> dbOk then json_status 500 (Message ''Failed to fetch project'')
      else
        (case select_project db i of
           [] \<Rightarrow> json_status 404 (Message ''Project not found'')
         | p # _ \<Rightarrow>
             json_ok (ProjectDetail p (select_images db i) (select_regions db i)
               (case select_canvas db i of [] \<Rightarrow> None | c # _ \<Rightarrow> Some c))))"

definition put_project ::
  "('b \<Rightarrow> 'e + insert_project) \<Rightarrow> bool \<Rightarrow> nat \<Rightarrow> database \<Rightarrow> string \<Rightarrow> 'b
     \<Rightarrow> 'e response \<times> database" where
  "put_project insertProjectSchema dbOk now db i reqBody =
     (case insertProjectSchema reqBody of
        Inl err \<Rightarrow> (json_status 400 (MessageWithError ''Invalid project data'' err), db)
      | Inr validated \<Rightarrow>
          if \<not> dbOk then (json_status 500 (Message ''Failed to update project''), db)
          else
            (let db' = update_project validated now i db
             in case filter (\<lambda>p. project_id p = i) (projects db') of
                  [] \<Rightarrow> (json_status 404 (Message ''Project not found''), db')
                | updatedProject # _ \<Rightarrow> (json_ok (ProjectRow updatedProject), db')))"

definition delete_project :: "bool \<Rightarrow> database \<Rightarrow> string \<Rightarrow> 'e response \<times> database" where
  "delete_project dbOk db i =
     (if \<not> dbOk then (json_status 500 (Message ''Failed to delete project''), db)
      else (json_ok (Message ''Project deleted successfully''), delete_project_rows i db))"

text \<open>
  \<open>POST /api/projects/:id/canvas\<close>. The body's own fields are validated by the
  parameter; \<open>projectId\<close> is overwritten with the route's id before validation. The
  insert is refused by the database (an exception that is not a validation error, so
  500) when no project has that id: \<open>project_id\<close> is a foreign key.
\<close>

definition post_canvas ::
  "('b \<Rightarrow> 'e + canvas_fields) \<Rightarrow> bool \<Rightarrow> string \<Rightarrow> nat \<Rightarrow> database \<Rightarrow> string \<Rightarrow> 'b
     \<Rightarrow> 'e response \<times> database" where
  "post_canvas insertCanvasStateSchema dbOk newId now db i reqBody =
     (case insertCanvasStateSchema reqBody of
        Inl err \<Rightarrow> (json_status 400 (MessageWithError ''Invalid canvas data'' err), db)
      | Inr validated \<Rightarrow>
          if \<not> dbOk then (json_status 500 (Message ''Failed to save canvas state''), db)
          else
            (case select_canvas db i of
               existing # _ \<Rightarrow>
                 (json_ok (CanvasStateRow (set_canvas_state i validated now existing)),
                  db\<lparr>canvasStates :=
                       map (\<lambda>c. if state_projectId c = i
                                then set_canvas_state i validated now c else c)
                         (canvasStates db)\<rparr>)
             | [] \<Rightarrow>
                 if i \<in> set (map project_id (projects db))
                 then
                   (let newState = new_canvas_state newId i validated now
                    in (json_ok (CanvasStateRow newState),
                        db\<lparr>canvasStates := canvasStates db @ [newState]\<rparr>))
                 else (json_status 500 (Message ''Failed to save canvas state''), db)))"

subsection \<open>Upload\<close>

record upload_file =
  originalname :: string
  mimetype :: string
  file_size :: nat
  buffer :: string

definition ALLOWED_MIME_TYPES :: "string list" where
  "ALLOWED_MIME_TYPES = [''image/jpeg'', ''image/jpg'', ''image/png'', ''image/gif'', ''image/webp'']"

definition fileSize_limit :: nat where
  "fileSize_limit = 10 * 1024 * 1024"

datatype upload_error = InvalidFileType string | LimitFileSize string

definition fileFilter :: "upload_file \<Rightarrow> upload_error + bool" where
  "fileFilter file =
     (if mimetype file \<in> set ALLOWED_MIME_TYPES then Inr True
      else Inl (InvalidFileType ''Invalid file type. Only images are allowed.''))"

text \<open>
  \<open>upload.single("image")\<close>: the upload library runs the filter when the file part
  starts and enforces \<open>limits.fileSize\<close> while it reads the part; on either error it
  hands the error on and the route's handler does not run. Without a file part
  \<open>req.file\<close> is undefined and the handler runs.
\<close>

definition upload_single :: "upload_file option \<Rightarrow> upload_error + upload_file option" where
  "upload_single part =
     (case part of
        None \<Rightarrow> Inr None
      | Some file \<Rightarrow>
          (case fileFilter file of
             Inl err \<Rightarrow> Inl err
           | Inr _ \<Rightarrow>
               if file_size file > fileSize_limit then Inl (LimitFileSize ''File too large'')
               else Inr (Some file)))"

definition error_message :: "upload_error \<Rightarrow> string" where
  "error_message err = (case err of InvalidFileType m \<Rightarrow> m | LimitFileSize m \<Rightarrow> m)"

text \<open>
  Modelled from the spec: the stage that turns an error handed on by the upload
  middleware into a response. The route file has no code for it: its handler does not
  run on such an error, and its own 400 is for a request without a file. The spec
  says: "Validation failures surface as HTTP 400 with the validation error".
\<close>

definition upload_rejected :: "upload_error \<Rightarrow> 'e response" where
  "upload_rejected err = json_status 400 (Message (error_message err))"

text \<open>
  The route's handler. \<open>extLower\<close> is \<open>extname(originalname).toLowerCase()\<close>,
  \<open>uuid\<close> the value of \<open>randomUUID()\<close>, \<open>fsOk\<close> whether \<open>writeFile\<close> succeeds; the
  upload directory is a map from file names to contents.
\<close>

definition upload_handler ::
  "(string \<Rightarrow> string) \<Rightarrow> string \<Rightarrow> bool \<Rightarrow> (string \<rightharpoonup> string) \<Rightarrow> upload_file option
     \<Rightarrow> 'e response \<times> (string \<rightharpoonup> string)" where
  "upload_handler extLower uuid fsOk files reqFile =
     (case reqFile of
        None \<Rightarrow> (json_status 400 (Message ''No file uploaded''), files)
      | Some file \<Rightarrow>
          (let safeFileName = uuid @ extLower (originalname file)
           in if \<not> fsOk then (json_status 500 (Message ''Failed to upload file''), files)
              else (json_ok (Uploaded (''/uploads/'' @ safeFileName) (originalname file)
                              (file_size file) (mimetype file)),
                    files(safeFileName \<mapsto> buffer file))))"

definition post_upload ::
  "(string \<Rightarrow> string) \<Rightarrow> string \<Rightarrow> bool \<Rightarrow> (string \<rightharpoonup> string) \<Rightarrow> upload_file option
     \<Rightarrow> 'e response \<times> (string \<rightharpoonup> string)" where
  "post_upload extLower uuid fsOk files part =
     (case upload_single part of
        Inl err \<Rightarrow> (upload_rejected err, files)
      | Inr reqFile \<Rightarrow> upload_handler extLower uuid fsOk files reqFile)"

section \<open>Sample data\<close>

text \<open>
  Concrete instances used by the examples below: a serializer that writes the type and
  the fill of each canvas object between brackets, a loader that yields an empty
  canvas (so its loads fire no event), a few states of the component reached by running
  its functions from the initial state, and a canvas with a background image
  (reference 0) under a selected rectangle (reference 1).
\<close>

abbreviation sample_toJSON :: "canvas \<Rightarrow> string" where
  "sample_toJSON \<equiv>
     (\<lambda>c. ''['' @ concat (map (\<lambda>r. otype (heap c r) @ '':'' @ fill (heap c r) @ '';'') (objects c))
            @ '']'')"

abbreviation sample_load :: "string \<Rightarrow> canvas \<Rightarrow> canvas" where
  "sample_load \<equiv> (\<lambda>json c. new_canvas)"

abbreviation sample_mounted :: workspace where
  "sample_mounted \<equiv> initial_workspace\<lparr>fabricCanvasRef := Some new_canvas\<rparr>"

abbreviation sample_edited :: workspace where
  "sample_edited \<equiv>
     step sample_toJSON sample_load (AddRectangle None)
       (step sample_toJSON sample_load ObjectModified sample_mounted)"

abbreviation sample_undone :: workspace where
  "sample_undone \<equiv>
     step sample_toJSON sample_load LoadCompletes
       (step sample_toJSON sample_load Undo sample_edited)"

text \<open>
  A loader that reads back what the sample serializer writes for a canvas with one
  default rectangle, grey or red, and the state after an empty snapshot, a new
  rectangle and a change of its colour to red.
\<close>

abbreviation sample_parse :: "string \<Rightarrow> canvas \<Rightarrow> canvas" where
  "sample_parse \<equiv>
     (\<lambda>json c.
        if json = ''[rect:#C0C0C0;]'' then snd (canvas_add (new_rect None) new_canvas)
        else if json = ''[rect:#FF0000;]''
        then snd (canvas_add (new_rect (Some ''#FF0000'')) new_canvas)
        else new_canvas)"

abbreviation sample_red :: workspace where
  "sample_red \<equiv>
     step sample_toJSON sample_parse (SelectedColor (Some ''#FF0000''))
       (step sample_toJSON sample_parse (AddRectangle None)
          (step sample_toJSON sample_parse ObjectModified sample_mounted))"

abbreviation sample_image :: fabric_object where
  "sample_image \<equiv> unallocated\<lparr>otype := ''image''\<rparr>"

abbreviation sample_scene :: canvas where
  "sample_scene \<equiv>
     setActiveObject 1
       (snd (canvas_add (new_rect None) (snd (canvas_add sample_image new_canvas))))"

abbreviation sample_scene_ws :: workspace where
  "sample_scene_ws \<equiv> initial_workspace\<lparr>fabricCanvasRef := Some sample_scene\<rparr>"

abbreviation sample_full :: workspace where
  "sample_full \<equiv>
     ((step sample_toJSON sample_load ObjectModified ^^ 50) sample_mounted)
       \<lparr>fabricCanvasRef := Some (snd (canvas_add (new_rect None) new_canvas))\<rparr>"

text \<open>
  A database with two projects: \<open>p1\<close> has an image, a colour region and a recent
  colour but no canvas state; \<open>p2\<close> has an image and a canvas state. One recent colour
  belongs to no project.
\<close>

abbreviation sample_project1 :: project where
  "sample_project1 \<equiv>
     \<lparr>project_id = ''p1'', project_name = ''Sofa'', project_description = None,
      project_previewImageUrl = None, project_createdAt = 1, project_updatedAt = 1\<rparr>"

abbreviation sample_project2 :: project where
  "sample_project2 \<equiv>
     \<lparr>project_id = ''p2'', project_name = ''Chair'', project_description = Some ''oak'',
      project_previewImageUrl = None, project_createdAt = 2, project_updatedAt = 3\<rparr>"

abbreviation sample_image1 :: project_image where
  "sample_image1 \<equiv>
     \<lparr>image_id = ''i1'', image_projectId = ''p1'', originalImagePath = ''/uploads/a.png'',
      mimeType = ''image/png'', image_width = 800, image_height = 600, image_createdAt = 1\<rparr>"

abbreviation sample_image2 :: project_image where
  "sample_image2 \<equiv>
     \<lparr>image_id = ''i2'', image_projectId = ''p2'', originalImagePath = ''/uploads/b.png'',
      mimeType = ''image/png'', image_width = 640, image_height = 480, image_createdAt = 2\<rparr>"

abbreviation sample_region1 :: color_region where
  "sample_region1 \<equiv>
     \<lparr>region_id = ''r1'', region_projectId = ''p1'', region_name = ''seat'',
      fabricObject = ''{}'', fillHex = ''#C0C0C0'', region_opacity = ''1'',
      blendMode = ''normal'', zIndex = 0, region_createdAt = 1\<rparr>"

abbreviation sample_recent1 :: recent_color where
  "sample_recent1 \<equiv>
     \<lparr>recent_id = ''c1'', recent_projectId = Some ''p1'', hex = ''#C0C0C0'',
      colorCode = None, colorName = None, usedAt = 1\<rparr>"

abbreviation sample_recent2 :: recent_color where
  "sample_recent2 \<equiv>
     \<lparr>recent_id = ''c2'', recent_projectId = None, hex = ''#FF0000'',
      colorCode = None, colorName = None, usedAt = 2\<rparr>"

abbreviation sample_state2 :: canvas_state where
  "sample_state2 \<equiv>
     \<lparr>state_id = ''s2'', state_projectId = ''p2'', canvasJson = ''{0}'', zoom = ''1'',
      state_updatedAt = 3\<rparr>"

abbreviation sample_db :: database where
  "sample_db \<equiv>
     \<lparr>projects = [sample_project1, sample_project2],
      projectImages = [sample_image1, sample_image2],
      colorRegions = [sample_region1],
      recentColors = [sample_recent1, sample_recent2],
      canvasStates = [sample_state2]\<rparr>"

abbreviation sample_pdf :: upload_file where
  "sample_pdf \<equiv>
     \<lparr>originalname = ''plan.PDF'', mimetype = ''application/pdf'', file_size = 100,
      buffer = ''%PDF''\<rparr>"

abbreviation sample_big_png :: upload_file where
  "sample_big_png \<equiv>
     \<lparr>originalname = ''sofa.png'', mimetype = ''image/png'', file_size = 10485761,
      buffer = ''PNG''\<rparr>"

section \<open>Properties of the history buffer\<close>

lemma slice0_in_range:
  "- 1 \<le> i \<Longrightarrow> i < int (length xs) \<Longrightarrow> slice0 xs (i + 1) = take (nat (i + 1)) xs"
  by (simp add: slice0_def Let_def min_def)

lemma length_slice0: "length (slice0 xs e) \<le> length xs"
  by (simp add: slice0_def Let_def)

lemma saveHistory_canvas: "fabricCanvasRef (saveHistory J s) = fabricCanvasRef s"
  by (simp add: saveHistory_def Let_def split: option.splits)

lemma saveHistory_None: "fabricCanvasRef s = None \<Longrightarrow> saveHistory J s = s"
  by (simp add: saveHistory_def)

lemma saveHistory_in_range:
  assumes c: "fabricCanvasRef s = Some c"
    and lo: "- 1 \<le> historyIndexRef s"
    and hi: "historyIndexRef s < int (length (historyRef s))"
  shows "saveHistory J s =
           (let h = take (nat (historyIndexRef s + 1)) (historyRef s) @ [J c]
            in if length h \<le> 50
               then s\<lparr>historyRef := h, historyIndexRef := historyIndexRef s + 1\<rparr>
               else s\<lparr>historyRef := tl h, historyIndexRef := historyIndexRef s\<rparr>)"
  using assms by (simp add: saveHistory_def Let_def slice0_in_range)

lemma saveHistory_length: "length (historyRef s) \<le> 50 \<Longrightarrow> length (historyRef (saveHistory J s)) \<le> 50"
  using length_slice0 [of "historyRef s" "historyIndexRef s + 1"]
  by (auto simp add: saveHistory_def Let_def split: option.splits)

lemma cursor_ok_range: "cursor_ok s \<Longrightarrow> - 1 \<le> historyIndexRef s \<and> historyIndexRef s < int (length (historyRef s))"
  by (auto simp: cursor_ok_def split: if_splits)

lemma saveHistory_cursor_ok: "cursor_ok s \<Longrightarrow> cursor_ok (saveHistory J s)"
proof (cases "fabricCanvasRef s")
  case None
  then show "cursor_ok s \<Longrightarrow> cursor_ok (saveHistory J s)" by (simp add: saveHistory_None)
next
  case (Some c)
  assume ok: "cursor_ok s"
  note r = cursor_ok_range [OF ok]
  have len: "length (historyRef s) \<le> 50" using ok by (simp add: cursor_ok_def)
  show "cursor_ok (saveHistory J s)"
    using r len Some
    by (cases "historyRef s")
       (auto simp add: saveHistory_in_range [OF Some] Let_def cursor_ok_def min_def)
qed

lemma restore_hist: "historyRef (restore L i s) = historyRef s"
  by (simp add: restore_def split: option.splits)

lemma restore_idx: "historyIndexRef (restore L i s) = i"
  by (simp add: restore_def split: option.splits)

lemma restore_canvas: "fabricCanvasRef (restore L i s) = fabricCanvasRef s"
  by (simp add: restore_def split: option.splits)

lemma undo_hist: "historyRef (undo L s) = historyRef s"
  by (simp add: undo_def restore_hist split: option.splits)

lemma redo_hist: "historyRef (redo L s) = historyRef s"
  by (simp add: redo_def restore_hist split: option.splits)

lemma undo_cursor_ok: "cursor_ok s \<Longrightarrow> cursor_ok (undo L s)"
  by (auto simp add: undo_def cursor_ok_def restore_hist restore_idx restore_canvas split: option.splits if_splits)

lemma redo_cursor_ok: "cursor_ok s \<Longrightarrow> cursor_ok (redo L s)"
  by (auto simp add: redo_def cursor_ok_def restore_hist restore_idx restore_canvas split: option.splits if_splits)

lemma set_canvas_cursor_ok: "cursor_ok s \<Longrightarrow> cursor_ok (s\<lparr>fabricCanvasRef := Some c\<rparr>)"
  by (auto simp add: cursor_ok_def split: if_splits)

lemma set_pending_cursor_ok: "cursor_ok s \<Longrightarrow> cursor_ok (s\<lparr>pendingLoads := ps\<rparr>)"
  by (auto simp add: cursor_ok_def split: if_splits)

lemma funpow_saveHistory_cursor_ok: "cursor_ok s \<Longrightarrow> cursor_ok ((saveHistory J ^^ n) s)"
  by (induction n) (simp_all add: saveHistory_cursor_ok)

lemma load_completes_cursor_ok: "cursor_ok s \<Longrightarrow> cursor_ok (load_completes J s)"
proof (cases "pendingLoads s")
  case Nil
  then show "cursor_ok s \<Longrightarrow> cursor_ok (load_completes J s)"
    by (simp add: load_completes_def)
next
  case (Cons load rest)
  assume ok: "cursor_ok s"
  have f: "on_object_added J = saveHistory J"
    by (rule ext) (simp add: on_object_added_def)
  show "cursor_ok (load_completes J s)"
  proof (cases "fabricCanvasRef s")
    case None
    then show ?thesis
      using Cons ok by (simp add: load_completes_def set_pending_cursor_ok)
  next
    case (Some c)
    have "cursor_ok (s\<lparr>fabricCanvasRef := Some (load c), pendingLoads := rest\<rparr>)"
      by (intro set_pending_cursor_ok set_canvas_cursor_ok ok)
    then show ?thesis
      using Cons Some by (simp add: load_completes_def f funpow_saveHistory_cursor_ok)
  qed
qed

lemma edit_active_cursor_ok: "cursor_ok s \<Longrightarrow> cursor_ok (edit_active J f c s)"
  by (simp add: edit_active_def saveHistory_cursor_ok set_canvas_cursor_ok split: option.splits)

lemma add_shape_cursor_ok: "cursor_ok s \<Longrightarrow> cursor_ok (add_shape J ob s)"
  by (simp add: add_shape_def on_object_added_def saveHistory_cursor_ok set_canvas_cursor_ok
      split: option.splits prod.splits)

lemma step_cursor_ok: "cursor_ok s \<Longrightarrow> cursor_ok (step J L e s)"
  by (cases e)
     (simp_all add: on_object_modified_def on_object_added_def applySelectedColor_def
        setOpacity_def setBlendMode_def addRectangle_def addCircle_def resetCanvas_def
        saveHistory_cursor_ok edit_active_cursor_ok add_shape_cursor_ok set_canvas_cursor_ok
        undo_cursor_ok redo_cursor_ok load_completes_cursor_ok split: option.splits)

lemma reachable_cursor_ok: "reachable J L s \<Longrightarrow> cursor_ok s"
proof (induction rule: reachable.induct)
  case r_init
  show ?case by (simp add: cursor_ok_def initial_workspace_def)
next
  case (r_canvas s c)
  then show ?case by (simp add: set_canvas_cursor_ok)
next
  case (r_step s e)
  then show ?case by (simp add: step_cursor_ok)
qed

lemma saveHistory_reachable:
  assumes r: "reachable J L s" and c: "fabricCanvasRef s = Some c"
  shows "saveHistory J s =
           (let h = take (nat (historyIndexRef s + 1)) (historyRef s) @ [J c]
            in if length h \<le> 50
               then s\<lparr>historyRef := h, historyIndexRef := historyIndexRef s + 1\<rparr>
               else s\<lparr>historyRef := tl h, historyIndexRef := historyIndexRef s\<rparr>)"
  using cursor_ok_range [OF reachable_cursor_ok [OF r]] c
  by (simp add: saveHistory_in_range)

lemma at_index_last: "xs \<noteq> [] \<Longrightarrow> at_index xs (int (length xs) - 1) = Some (last xs)"
  by (cases xs rule: rev_cases) (auto simp add: at_index_def nth_append)

lemma pushed_last:
  "(if length (p @ [x]) \<le> 50 then p @ [x] else tl (p @ [x])) \<noteq> []
   \<and> last (if length (p @ [x]) \<le> 50 then p @ [x] else tl (p @ [x])) = x"
  by (cases p) simp_all

lemma reachable_funpow: "reachable J L s \<Longrightarrow> reachable J L ((step J L e ^^ n) s)"
  by (induction n) (auto intro: reachable.r_step)

lemmas workspace_defs =
  initial_workspace_def new_canvas_def on_object_modified_def on_object_added_def
  saveHistory_def slice0_def at_index_def Let_def addRectangle_def addCircle_def
  add_shape_def canvas_add_def setActiveObject_def undo_def redo_def restore_def
  load_completes_def
  new_rect_def new_circle_def fill_or_default_def

lemma sample_edited_value:
  "sample_edited =
     \<lparr>fabricCanvasRef = Some (setActiveObject 0 (snd (canvas_add (new_rect None) new_canvas))),
      historyRef = [''[]'', ''[rect:#C0C0C0;]'', ''[rect:#C0C0C0;]''], historyIndexRef = 2,
      pendingLoads = []\<rparr>"
  by (simp add: workspace_defs)

lemma sample_undone_value:
  "sample_undone =
     \<lparr>fabricCanvasRef = Some new_canvas,
      historyRef = [''[]'', ''[rect:#C0C0C0;]'', ''[rect:#C0C0C0;]''], historyIndexRef = 1,
      pendingLoads = []\<rparr>"
  by (simp add: workspace_defs)

lemma sample_full_value:
  "sample_full =
     \<lparr>fabricCanvasRef = Some (snd (canvas_add (new_rect None) new_canvas)),
      historyRef = replicate 50 ''[]'', historyIndexRef = 49, pendingLoads = []\<rparr>"
  by (simp add: eval_nat_numeral initial_workspace_def on_object_modified_def saveHistory_def
        slice0_def new_canvas_def Let_def)

lemma sample_edited_reachable: "reachable sample_toJSON sample_load sample_edited"
  by (intro reachable.intros)

lemma sample_undone_reachable: "reachable sample_toJSON sample_load sample_undone"
  by (intro reachable.intros)

lemma sample_full_reachable: "reachable sample_toJSON sample_load sample_full"
  by (intro reachable.r_canvas reachable_funpow reachable.r_init)

lemma saveHistory_snapshot:
  assumes ok: "cursor_ok s" and c: "fabricCanvasRef s = Some c"
  shows "fabricCanvasRef (saveHistory J s) = Some c
         \<and> historyRef (saveHistory J s) \<noteq> []
         \<and> last (historyRef (saveHistory J s)) = J c
         \<and> at_index (historyRef (saveHistory J s)) (historyIndexRef (saveHistory J s)) = Some (J c)"
proof -
  define p where "p = take (nat (historyIndexRef s + 1)) (historyRef s)"
  have rng: "- 1 \<le> historyIndexRef s \<and> historyIndexRef s < int (length (historyRef s))"
    by (rule cursor_ok_range [OF ok])
  have lenp: "int (length p) = historyIndexRef s + 1"
    unfolding p_def using rng by (auto simp add: min_def)
  have hist: "historyRef (saveHistory J s) =
                (if length (p @ [J c]) \<le> 50 then p @ [J c] else tl (p @ [J c]))"
    unfolding p_def using saveHistory_in_range [of s c J] c rng by (simp add: Let_def)
  have idx: "historyIndexRef (saveHistory J s) =
                (if length (p @ [J c]) \<le> 50 then historyIndexRef s + 1 else historyIndexRef s)"
    unfolding p_def using saveHistory_in_range [of s c J] c rng by (simp add: Let_def)
  have ne: "historyRef (saveHistory J s) \<noteq> []" and la: "last (historyRef (saveHistory J s)) = J c"
    unfolding hist using pushed_last [of p "J c"] by simp_all
  have "historyIndexRef (saveHistory J s) = int (length (historyRef (saveHistory J s))) - 1"
    unfolding hist idx using lenp by (cases "length (p @ [J c]) \<le> 50") simp_all
  then show ?thesis
    using at_index_last [OF ne] la ne c by (simp add: saveHistory_canvas)
qed

lemma edit_active_snapshot:
  assumes ok: "cursor_ok s" and a: "activeObject c = Some r" and t: "otype (heap c r) \<noteq> ''image''"
  shows "fabricCanvasRef (edit_active J f c s) = Some (obj_set r f c)
         \<and> historyRef (edit_active J f c s) \<noteq> []
         \<and> last (historyRef (edit_active J f c s)) = J (obj_set r f c)
         \<and> at_index (historyRef (edit_active J f c s)) (historyIndexRef (edit_active J f c s))
             = Some (J (obj_set r f c))"
proof -
  have e: "edit_active J f c s = saveHistory J (s\<lparr>fabricCanvasRef := Some (obj_set r f c)\<rparr>)"
    using a t by (simp add: edit_active_def)
  show ?thesis
    unfolding e
    by (rule saveHistory_snapshot [OF set_canvas_cursor_ok [OF ok]]) simp
qed

lemma add_shape_snapshot:
  assumes ok: "cursor_ok s" and c: "fabricCanvasRef s = Some c"
  shows "fabricCanvasRef (add_shape J ob s) = Some (setActiveObject (nextRef c) (snd (canvas_add ob c)))
         \<and> historyRef (add_shape J ob s) \<noteq> []
         \<and> last (historyRef (add_shape J ob s)) = J (setActiveObject (nextRef c) (snd (canvas_add ob c)))
         \<and> at_index (historyRef (add_shape J ob s)) (historyIndexRef (add_shape J ob s))
             = Some (J (setActiveObject (nextRef c) (snd (canvas_add ob c))))"
proof -
  define c1 where "c1 = snd (canvas_add ob c)"
  define s1 where "s1 = saveHistory J (s\<lparr>fabricCanvasRef := Some c1\<rparr>)"
  have f: "canvas_add ob c = (nextRef c, c1)" by (simp add: canvas_add_def c1_def)
  have e: "add_shape J ob s = saveHistory J (s1\<lparr>fabricCanvasRef := Some (setActiveObject (nextRef c) c1)\<rparr>)"
    using c by (simp add: add_shape_def on_object_added_def s1_def f)
  have ok1: "cursor_ok s1"
    unfolding s1_def by (intro saveHistory_cursor_ok set_canvas_cursor_ok ok)
  show ?thesis
    unfolding e c1_def [symmetric]
    by (rule saveHistory_snapshot [OF set_canvas_cursor_ok [OF ok1]]) simp
qed

lemma heap_reset_step: "heap (reset_step c r) = heap c"
  by (simp add: reset_step_def canvas_remove_def)

lemma heap_foldl_reset: "heap (foldl reset_step c rs) = heap c"
  by (induction rs arbitrary: c) (simp_all add: heap_reset_step)

lemma count_list_remove1:
  "count_list (remove1 z ys) r = (if r = z then count_list ys z - 1 else count_list ys r)"
  by (induction ys) auto

lemma filter_remove1_out: "\<not> P z \<Longrightarrow> filter P (remove1 z ys) = filter P ys"
  by (induction ys) auto

lemma objects_foldl_reset:
  assumes "\<And>r. otype (heap c r) \<noteq> ''image'' \<Longrightarrow> count_list (objects c) r \<le> count_list rs r"
  shows "objects (foldl reset_step c rs) = filter (\<lambda>r. otype (heap c r) = ''image'') (objects c)"
  using assms
proof (induction rs arbitrary: c)
  case Nil
  then have "\<And>r. r \<in> set (objects c) \<Longrightarrow> otype (heap c r) = ''image''"
    by (metis count_list.simps(1) count_list_0_iff le_zero_eq)
  then show ?case by (simp add: filter_id_conv)
next
  case (Cons z rs)
  show ?case
  proof (cases "otype (heap c z) = ''image''")
    case True
    then have st: "reset_step c z = c" by (simp add: reset_step_def)
    have "\<And>r. otype (heap c r) \<noteq> ''image'' \<Longrightarrow> count_list (objects c) r \<le> count_list rs r"
      using Cons.prems True by (metis count_list.simps(2))
    then show ?thesis using Cons.IH [of c] by (simp add: st)
  next
    case False
    define c' where "c' = reset_step c z"
    have hp: "heap c' = heap c" by (simp add: c'_def heap_reset_step)
    have ob: "objects c' = remove1 z (objects c)"
      using False by (simp add: c'_def reset_step_def canvas_remove_def)
    have "\<And>r. otype (heap c' r) \<noteq> ''image'' \<Longrightarrow> count_list (objects c') r \<le> count_list rs r"
    proof -
      fix r assume "otype (heap c' r) \<noteq> ''image''"
      then have "count_list (objects c) r \<le> count_list (z # rs) r"
        using Cons.prems hp by simp
      then show "count_list (objects c') r \<le> count_list rs r"
        by (simp add: ob count_list_remove1 split: if_splits)
    qed
    then have "objects (foldl reset_step c' rs) = filter (\<lambda>r. otype (heap c' r) = ''image'') (objects c')"
      by (rule Cons.IH)
    then show ?thesis
      using False by (simp add: c'_def [symmetric] hp ob filter_remove1_out)
  qed
qed

lemma resetCanvas_result:
  assumes c: "fabricCanvasRef s = Some c"
  shows "\<exists>c'. fabricCanvasRef (resetCanvas s) = Some c'
            \<and> objects c' = filter (\<lambda>q. otype (heap c q) = ''image'') (objects c)
            \<and> heap c' = heap c"
  using c objects_foldl_reset [of c "objects c"]
  by (simp add: resetCanvas_def heap_foldl_reset)

lemma edit_active_frame:
  assumes t: "otype (heap c r) = ''image''"
  shows "\<exists>c'. fabricCanvasRef (edit_active J f c (s\<lparr>fabricCanvasRef := Some c\<rparr>)) = Some c'
            \<and> objects c' = objects c \<and> heap c' r = heap c r"
  using t
  by (cases "activeObject c")
     (auto simp add: edit_active_def saveHistory_canvas obj_set_def)

lemmas editing_defs =
  applySelectedColor_def setOpacity_def setBlendMode_def edit_active_def obj_set_def
  resetCanvas_def reset_step_def canvas_remove_def unallocated_def

lemma sample_scene_reachable: "reachable sample_toJSON sample_load sample_scene_ws"
  by (intro reachable.intros)

subsection \<open>C1: what a push leaves in the buffer\<close>

text \<open>
  Claim C1 says that, for every history buffer and cursor, \<open>saveHistory\<close> leaves the
  prefix \<open>history[0..cursor]\<close> followed by the new snapshot, with the cursor on the new
  snapshot. On a full buffer with the cursor at its end that list would have 51 entries,
  and the function drops the oldest one. After fifty snapshots of the empty canvas and
  with a rectangle on the canvas, the push leaves forty-nine of the old snapshots and
  the new one, not all fifty and the new one.
\<close>

theorem saveHistory_full_buffer_counterexample:
  "reachable sample_toJSON sample_load sample_full
   \<and> historyRef sample_full = replicate 50 ''[]''
   \<and> historyIndexRef sample_full = 49
   \<and> historyRef (saveHistory sample_toJSON sample_full)
       = replicate 49 ''[]'' @ [''[rect:#C0C0C0;]'']
   \<and> historyRef (saveHistory sample_toJSON sample_full)
       \<noteq> take (nat (historyIndexRef sample_full + 1)) (historyRef sample_full)
           @ [''[rect:#C0C0C0;]'']"
  using sample_full_reachable unfolding sample_full_value
  by (simp add: workspace_defs eval_nat_numeral)

text \<open>
  Claim C1, amended: in every state the component can reach, with the canvas mounted,
  \<open>saveHistory\<close> leaves the prefix \<open>history[0..cursor]\<close> followed by the new snapshot
  when that list has at most 50 entries, and that list without its first entry
  otherwise; the entries after the cursor are discarded in both cases, and the cursor
  ends on the last entry, which is the new snapshot.
\<close>

theorem saveHistory_pushes:
  assumes r: "reachable J L s" and c: "fabricCanvasRef s = Some c"
  shows "historyRef (saveHistory J s) =
           (let h = take (nat (historyIndexRef s + 1)) (historyRef s) @ [J c]
            in if length h \<le> 50 then h else tl h)
         \<and> historyIndexRef (saveHistory J s) = int (length (historyRef (saveHistory J s))) - 1
         \<and> at_index (historyRef (saveHistory J s)) (historyIndexRef (saveHistory J s)) = Some (J c)"
proof -
  define i where "i = historyIndexRef s"
  define p where "p = take (nat (i + 1)) (historyRef s)"
  define h where "h = p @ [J c]"
  define s' where "s' = saveHistory J s"
  have rng: "- 1 \<le> i \<and> i < int (length (historyRef s))"
    unfolding i_def by (rule cursor_ok_range [OF reachable_cursor_ok [OF r]])
  have lenp: "int (length p) = i + 1" unfolding p_def using rng by (auto simp add: min_def)
  have lenh: "int (length h) = i + 2" unfolding h_def using lenp by simp
  have eq: "s' =
           (if length h \<le> 50
               then s\<lparr>historyRef := h, historyIndexRef := i + 1\<rparr>
               else s\<lparr>historyRef := tl h, historyIndexRef := i\<rparr>)"
    unfolding s'_def h_def p_def i_def
    using saveHistory_reachable [OF r c] by (simp only: Let_def)
  have hist: "historyRef s' = (if length h \<le> 50 then h else tl h)"
    by (simp add: eq)
  have ne: "historyRef s' \<noteq> []" and la: "last (historyRef s') = J c"
    unfolding hist h_def using pushed_last [of p "J c"] by simp_all
  have idx: "historyIndexRef s' = int (length (historyRef s')) - 1"
  proof (cases "length h \<le> 50")
    case True
    then show ?thesis using lenh by (simp add: eq)
  next
    case False
    then show ?thesis using lenh by (simp add: eq)
  qed
  have "historyRef s' = (let h = h in if length h \<le> 50 then h else tl h)
        \<and> historyIndexRef s' = int (length (historyRef s')) - 1
        \<and> at_index (historyRef s') (historyIndexRef s') = Some (J c)"
    using hist idx at_index_last [OF ne] la by (simp add: Let_def)
  then show ?thesis unfolding s'_def h_def p_def i_def .
qed

theorem saveHistory_pushes_witness:
  "reachable sample_toJSON sample_load sample_undone
   \<and> fabricCanvasRef sample_undone = Some new_canvas
   \<and> historyRef sample_undone = [''[]'', ''[rect:#C0C0C0;]'', ''[rect:#C0C0C0;]'']
   \<and> historyIndexRef sample_undone = 1
   \<and> historyRef (saveHistory sample_toJSON sample_undone) = [''[]'', ''[rect:#C0C0C0;]'', ''[]'']
   \<and> historyIndexRef (saveHistory sample_toJSON sample_undone) = 2
   \<and> at_index (historyRef (saveHistory sample_toJSON sample_undone))
         (historyIndexRef (saveHistory sample_toJSON sample_undone)) = Some ''[]''
   \<and> reachable sample_toJSON sample_load sample_full
   \<and> historyRef (saveHistory sample_toJSON sample_full)
       = replicate 49 ''[]'' @ [''[rect:#C0C0C0;]'']
   \<and> historyIndexRef (saveHistory sample_toJSON sample_full) = 49"
proof -
  have r: "reachable sample_toJSON sample_load sample_undone"
    by (rule sample_undone_reachable)
  have c: "fabricCanvasRef sample_undone = Some new_canvas"
    unfolding sample_undone_value by simp
  have r': "reachable sample_toJSON sample_load sample_full"
    by (rule sample_full_reachable)
  have c': "fabricCanvasRef sample_full = Some (snd (canvas_add (new_rect None) new_canvas))"
    unfolding sample_full_value by simp
  have 1: "historyRef sample_undone = [''[]'', ''[rect:#C0C0C0;]'', ''[rect:#C0C0C0;]'']
           \<and> historyIndexRef sample_undone = 1
           \<and> historyRef (saveHistory sample_toJSON sample_undone)
               = [''[]'', ''[rect:#C0C0C0;]'', ''[]'']
           \<and> historyIndexRef (saveHistory sample_toJSON sample_undone) = 2
           \<and> at_index (historyRef (saveHistory sample_toJSON sample_undone))
                 (historyIndexRef (saveHistory sample_toJSON sample_undone)) = Some ''[]''"
    using saveHistory_pushes [OF r c] unfolding sample_undone_value
    by (simp add: workspace_defs)
  have 2: "historyRef (saveHistory sample_toJSON sample_full)
             = replicate 49 ''[]'' @ [''[rect:#C0C0C0;]'']
           \<and> historyIndexRef (saveHistory sample_toJSON sample_full) = 49"
    using saveHistory_pushes [OF r' c'] unfolding sample_full_value
    by (simp add: workspace_defs eval_nat_numeral)
  show ?thesis using r c r' 1 2 by blast
qed

subsection \<open>C2: the buffer holds at most 50 entries\<close>

text \<open>
  Claim C2: the history buffer never holds more than 50 entries. No state the component
  can reach has more; \<open>saveHistory\<close>, \<open>undo\<close> and \<open>redo\<close> each keep a buffer of
  at most 50 entries within the bound; and whenever the prefix with the new snapshot
  would be longer than 50, the push drops the entry at index 0 and takes the
  incremented cursor back by one.
\<close>

theorem history_bound:
  "(reachable J L s \<longrightarrow> length (historyRef s) \<le> 50)
   \<and> (length (historyRef s) \<le> 50 \<longrightarrow>
        length (historyRef (saveHistory J s)) \<le> 50
        \<and> length (historyRef (undo L s)) \<le> 50
        \<and> length (historyRef (redo L s)) \<le> 50)
   \<and> (reachable J L s \<and> fabricCanvasRef s = Some c
        \<and> 50 < length (take (nat (historyIndexRef s + 1)) (historyRef s) @ [J c]) \<longrightarrow>
        historyRef (saveHistory J s) = tl (historyRef s) @ [J c]
        \<and> historyIndexRef (saveHistory J s) = (historyIndexRef s + 1) - 1)"
proof (intro conjI impI)
  assume "reachable J L s"
  then show "length (historyRef s) \<le> 50"
    using reachable_cursor_ok by (auto simp: cursor_ok_def)
next
  assume "length (historyRef s) \<le> 50"
  then show "length (historyRef (saveHistory J s)) \<le> 50" by (rule saveHistory_length)
next
  assume "length (historyRef s) \<le> 50"
  then show "length (historyRef (undo L s)) \<le> 50" by (simp add: undo_hist)
next
  assume "length (historyRef s) \<le> 50"
  then show "length (historyRef (redo L s)) \<le> 50" by (simp add: redo_hist)
next
  assume a: "reachable J L s \<and> fabricCanvasRef s = Some c
        \<and> 50 < length (take (nat (historyIndexRef s + 1)) (historyRef s) @ [J c])"
  then have r: "reachable J L s" and c: "fabricCanvasRef s = Some c"
    and big: "50 < length (take (nat (historyIndexRef s + 1)) (historyRef s) @ [J c])" by auto
  have ok: "cursor_ok s" by (rule reachable_cursor_ok [OF r])
  have full: "take (nat (historyIndexRef s + 1)) (historyRef s) = historyRef s"
    using big cursor_ok_range [OF ok] ok by (simp add: cursor_ok_def min_def split: if_splits)
  have ne: "historyRef s \<noteq> []" using big full by auto
  show "historyRef (saveHistory J s) = tl (historyRef s) @ [J c]"
    using saveHistory_reachable [OF r c] big ne full by (simp add: Let_def)
next
  assume a: "reachable J L s \<and> fabricCanvasRef s = Some c
        \<and> 50 < length (take (nat (historyIndexRef s + 1)) (historyRef s) @ [J c])"
  then have r: "reachable J L s" and c: "fabricCanvasRef s = Some c"
    and big: "50 < length (take (nat (historyIndexRef s + 1)) (historyRef s) @ [J c])" by auto
  show "historyIndexRef (saveHistory J s) = (historyIndexRef s + 1) - 1"
    using saveHistory_reachable [OF r c] big by (simp add: Let_def del: length_append)
qed

theorem history_bound_witness:
  "reachable sample_toJSON sample_load sample_full
   \<and> length (historyRef sample_full) = 50
   \<and> historyIndexRef sample_full = 49
   \<and> length (historyRef (saveHistory sample_toJSON sample_full)) \<le> 50
   \<and> length (historyRef (undo sample_load sample_full)) \<le> 50
   \<and> length (historyRef (redo sample_load sample_full)) \<le> 50
   \<and> historyRef (saveHistory sample_toJSON sample_full) = replicate 49 ''[]'' @ [''[rect:#C0C0C0;]'']
   \<and> historyIndexRef (saveHistory sample_toJSON sample_full) = 49"
proof -
  have r: "reachable sample_toJSON sample_load sample_full"
    by (rule sample_full_reachable)
  show ?thesis
    using history_bound [of sample_toJSON sample_load sample_full
        "snd (canvas_add (new_rect None) new_canvas)"] r
    unfolding sample_full_value
    by (simp add: workspace_defs eval_nat_numeral)
qed

subsection \<open>C3: undo and redo move the cursor by one, or do nothing\<close>

text \<open>
  Claim C3: in every state the component can reach, \<open>undo\<close> takes the cursor down by
  exactly 1 if and only if the cursor is greater than 0, and \<open>redo\<close> takes it up by
  exactly 1 if and only if the cursor is less than the buffer's length minus 1. In every
  other case the whole state is as it was, and the buffer is never changed.
\<close>

theorem undo_redo_cursor:
  assumes r: "reachable J L s"
  shows "historyIndexRef (undo L s) =
           (if 0 < historyIndexRef s then historyIndexRef s - 1 else historyIndexRef s)
         \<and> historyRef (undo L s) = historyRef s
         \<and> (if 0 < historyIndexRef s then True else undo L s = s)
         \<and> historyIndexRef (redo L s) =
           (if historyIndexRef s < int (length (historyRef s)) - 1
            then historyIndexRef s + 1 else historyIndexRef s)
         \<and> historyRef (redo L s) = historyRef s
         \<and> (if historyIndexRef s < int (length (historyRef s)) - 1 then True else redo L s = s)"
proof -
  have ok: "cursor_ok s" by (rule reachable_cursor_ok [OF r])
  have u: "0 < historyIndexRef s \<longrightarrow> fabricCanvasRef s \<noteq> None"
    using ok by (auto simp: cursor_ok_def split: if_splits)
  have v: "historyIndexRef s < int (length (historyRef s)) - 1 \<longrightarrow> fabricCanvasRef s \<noteq> None"
    using ok by (auto simp: cursor_ok_def split: if_splits)
  show ?thesis
  proof (cases "fabricCanvasRef s")
    case None
    then show ?thesis using u v by (simp add: undo_def redo_def)
  next
    case (Some c)
    then show ?thesis
      by (simp add: undo_def redo_def restore_idx restore_hist)
  qed
qed

theorem undo_redo_cursor_witness:
  "reachable sample_toJSON sample_load sample_edited
   \<and> historyIndexRef sample_edited = 2
   \<and> length (historyRef sample_edited) = 3
   \<and> historyIndexRef (undo sample_load sample_edited) = 1
   \<and> historyRef (undo sample_load sample_edited) = historyRef sample_edited
   \<and> redo sample_load sample_edited = sample_edited
   \<and> reachable sample_toJSON sample_load sample_undone
   \<and> historyIndexRef sample_undone = 1
   \<and> historyIndexRef (redo sample_load sample_undone) = 2
   \<and> reachable sample_toJSON sample_load sample_mounted
   \<and> historyIndexRef sample_mounted = - 1
   \<and> undo sample_load sample_mounted = sample_mounted
   \<and> redo sample_load sample_mounted = sample_mounted"
proof -
  have r: "reachable sample_toJSON sample_load sample_edited"
    by (rule sample_edited_reachable)
  have r': "reachable sample_toJSON sample_load sample_undone"
    by (rule sample_undone_reachable)
  have r'': "reachable sample_toJSON sample_load sample_mounted"
    by (intro reachable.intros)
  have 1: "historyIndexRef sample_edited = 2
           \<and> length (historyRef sample_edited) = 3
           \<and> historyIndexRef (undo sample_load sample_edited) = 1
           \<and> historyRef (undo sample_load sample_edited) = historyRef sample_edited
           \<and> redo sample_load sample_edited = sample_edited"
    using undo_redo_cursor [OF r] unfolding sample_edited_value
    by (simp add: workspace_defs)
  have 2: "historyIndexRef sample_undone = 1
           \<and> historyIndexRef (redo sample_load sample_undone) = 2"
    using undo_redo_cursor [OF r'] unfolding sample_undone_value
    by (simp add: workspace_defs)
  have 3: "historyIndexRef sample_mounted = - 1
           \<and> undo sample_load sample_mounted = sample_mounted
           \<and> redo sample_load sample_mounted = sample_mounted"
    using undo_redo_cursor [OF r'']
    by (simp add: workspace_defs)
  show ?thesis using r r' r'' 1 2 3 by blast
qed

subsection \<open>C9: undo followed by redo, once the load has finished\<close>

lemma saveHistory_cursor_last:
  assumes ok: "cursor_ok s" and c: "fabricCanvasRef s = Some c"
  shows "historyIndexRef (saveHistory J s) = int (length (historyRef (saveHistory J s))) - 1"
proof -
  define p where "p = take (nat (historyIndexRef s + 1)) (historyRef s)"
  have rng: "- 1 \<le> historyIndexRef s \<and> historyIndexRef s < int (length (historyRef s))"
    by (rule cursor_ok_range [OF ok])
  have lenp: "int (length p) = historyIndexRef s + 1"
    unfolding p_def using rng by (auto simp add: min_def)
  have hist: "historyRef (saveHistory J s) =
                (if length (p @ [J c]) \<le> 50 then p @ [J c] else tl (p @ [J c]))"
    unfolding p_def using saveHistory_in_range [of s c J] c rng by (simp add: Let_def)
  have idx: "historyIndexRef (saveHistory J s) =
                (if length (p @ [J c]) \<le> 50 then historyIndexRef s + 1 else historyIndexRef s)"
    unfolding p_def using saveHistory_in_range [of s c J] c rng by (simp add: Let_def)
  show ?thesis
    unfolding hist idx using lenp by (cases "length (p @ [J c]) \<le> 50") simp_all
qed

lemma funpow_saveHistory_canvas: "fabricCanvasRef ((saveHistory J ^^ n) s) = fabricCanvasRef s"
  by (induction n) (simp_all add: saveHistory_canvas)

lemma funpow_saveHistory_pending: "pendingLoads ((saveHistory J ^^ n) s) = pendingLoads s"
  by (induction n) (simp_all add: saveHistory_def Let_def split: option.splits)

lemma funpow_saveHistory_cursor_last:
  assumes ok: "cursor_ok s" and c: "fabricCanvasRef s = Some c" and n: "0 < n"
  shows "historyIndexRef ((saveHistory J ^^ n) s)
         = int (length (historyRef ((saveHistory J ^^ n) s))) - 1"
proof -
  obtain m where m: "n = Suc m" using n by (cases n) auto
  have "cursor_ok ((saveHistory J ^^ m) s)"
    by (rule funpow_saveHistory_cursor_ok [OF ok])
  moreover have "fabricCanvasRef ((saveHistory J ^^ m) s) = Some c"
    by (simp add: funpow_saveHistory_canvas c)
  ultimately show ?thesis
    unfolding m using saveHistory_cursor_last [of "(saveHistory J ^^ m) s" c J] by simp
qed

text \<open>
  In any state the component can reach with undo enabled and no load in flight, once
  the load that \<open>undo\<close> started has put at least one object on the canvas, the cursor
  is on the last entry of the buffer and \<open>redo\<close> does nothing.
\<close>

lemma undo_then_load_disables_redo:
  assumes r: "reachable J L s"
    and pos: "0 < historyIndexRef s"
    and np: "pendingLoads s = []"
    and c: "fabricCanvasRef s = Some c"
    and ob: "objects (L (historyRef s ! nat (historyIndexRef s - 1)) c) \<noteq> []"
  shows "historyIndexRef (load_completes J (undo L s))
           = int (length (historyRef (load_completes J (undo L s)))) - 1
         \<and> redo L (load_completes J (undo L s)) = load_completes J (undo L s)"
proof -
  define json where "json = historyRef s ! nat (historyIndexRef s - 1)"
  define s1 where
    "s1 = s\<lparr>historyIndexRef := historyIndexRef s - 1,
            fabricCanvasRef := Some (L json c), pendingLoads := []\<rparr>"
  define n where "n = length (objects (L json c))"
  have ok: "cursor_ok s" by (rule reachable_cursor_ok [OF r])
  have rng: "- 1 \<le> historyIndexRef s \<and> historyIndexRef s < int (length (historyRef s))"
    by (rule cursor_ok_range [OF ok])
  have u: "undo L s = s\<lparr>historyIndexRef := historyIndexRef s - 1, pendingLoads := [L json]\<rparr>"
    using pos c rng np by (simp add: undo_def restore_def at_index_def json_def)
  have f: "on_object_added J = saveHistory J"
    by (rule ext) (simp add: on_object_added_def)
  have l: "load_completes J (undo L s) = (saveHistory J ^^ n) s1"
    unfolding u using c by (simp add: load_completes_def f n_def s1_def)
  have ok1: "cursor_ok s1"
    using ok pos rng by (auto simp add: s1_def cursor_ok_def split: if_splits)
  have c1: "fabricCanvasRef s1 = Some (L json c)" by (simp add: s1_def)
  have n0: "0 < n" using ob by (simp add: n_def json_def)
  have last: "historyIndexRef ((saveHistory J ^^ n) s1)
              = int (length (historyRef ((saveHistory J ^^ n) s1))) - 1"
    by (rule funpow_saveHistory_cursor_last [OF ok1 c1 n0])
  have "redo L ((saveHistory J ^^ n) s1) = (saveHistory J ^^ n) s1"
    using last by (simp add: redo_def split: option.splits)
  then show ?thesis using last l by simp
qed

lemma sample_red_value:
  "sample_red =
     \<lparr>fabricCanvasRef =
        Some (obj_set 0 (\<lambda>ob. ob\<lparr>fill := ''#FF0000''\<rparr>)
               (setActiveObject 0 (snd (canvas_add (new_rect None) new_canvas)))),
      historyRef = [''[]'', ''[rect:#C0C0C0;]'', ''[rect:#C0C0C0;]'', ''[rect:#FF0000;]''],
      historyIndexRef = 3, pendingLoads = []\<rparr>"
  by (simp add: workspace_defs editing_defs)

lemma sample_red_reachable: "reachable sample_toJSON sample_parse sample_red"
  by (intro reachable.intros)

text \<open>
  Claim C9 says that, wherever undo is enabled, \<open>undo\<close> followed by \<open>redo\<close> restores
  the cursor and the snapshot that were current before. The code does not do that once
  the load started by \<open>undo\<close> has finished: the loaded objects fire \<open>object:added\<close>,
  the handler saves a snapshot over the entries after the cursor, and \<open>redo\<close> finds the
  cursor on the last entry. After an empty snapshot, a new rectangle and a change of
  its colour to red (four entries, cursor 3), \<open>undo\<close> moves the cursor to 2 and starts
  loading the grey rectangle; when that load finishes the buffer ends with a third grey
  snapshot in place of the red one, the cursor is 3 again, and \<open>redo\<close> changes nothing:
  the entry under the cursor is the grey snapshot, not the red one.
\<close>

theorem undo_load_redo_loses_snapshot:
  "reachable sample_toJSON sample_parse sample_red
   \<and> historyRef sample_red
       = [''[]'', ''[rect:#C0C0C0;]'', ''[rect:#C0C0C0;]'', ''[rect:#FF0000;]'']
   \<and> historyIndexRef sample_red = 3
   \<and> at_index (historyRef sample_red) (historyIndexRef sample_red) = Some ''[rect:#FF0000;]''
   \<and> historyRef (undo sample_parse sample_red) = historyRef sample_red
   \<and> historyIndexRef (undo sample_parse sample_red) = 2
   \<and> historyRef (load_completes sample_toJSON (undo sample_parse sample_red))
       = [''[]'', ''[rect:#C0C0C0;]'', ''[rect:#C0C0C0;]'', ''[rect:#C0C0C0;]'']
   \<and> historyIndexRef (load_completes sample_toJSON (undo sample_parse sample_red)) = 3
   \<and> redo sample_parse (load_completes sample_toJSON (undo sample_parse sample_red))
       = load_completes sample_toJSON (undo sample_parse sample_red)
   \<and> at_index
         (historyRef (redo sample_parse
            (load_completes sample_toJSON (undo sample_parse sample_red))))
         (historyIndexRef (redo sample_parse
            (load_completes sample_toJSON (undo sample_parse sample_red))))
       = Some ''[rect:#C0C0C0;]''"
  using sample_red_reachable unfolding sample_red_value
  by (simp add: workspace_defs editing_defs)

section \<open>Properties of the editing operations\<close>

subsection \<open>C4: every mutation saves a snapshot of the whole canvas\<close>

text \<open>
  Claim C4: every canvas mutation (an object added, an object modified, a fill applied,
  an opacity or blend-mode change) serializes the entire canvas to one string and makes
  it the newest entry of the history buffer. For the two event handlers the snapshot is
  the serialization of the canvas as it stands; for \<open>addRectangle\<close> and
  \<open>addCircle\<close> of the canvas with the new shape on top and selected; for the three
  setters, when the active object is not an image (and the colour is not empty), of the
  canvas with that object's property set. In each case the serializer is applied to the
  canvas as a whole, the result is the last entry of the buffer and the cursor is on it.
  What the serializer writes for a canvas is the library's business and a parameter here.
\<close>

theorem mutation_saves_snapshot:
  assumes r: "reachable J L s" and c: "fabricCanvasRef s = Some c"
  shows "(\<forall>s' \<in> set [on_object_added J s, on_object_modified J s].
            fabricCanvasRef s' = Some c \<and> historyRef s' \<noteq> [] \<and> last (historyRef s') = J c
            \<and> at_index (historyRef s') (historyIndexRef s') = Some (J c))
         \<and> (\<forall>(s', ob) \<in> set [(addRectangle J col s, new_rect col), (addCircle J col s, new_circle col)].
            \<exists>c'. c' = setActiveObject (nextRef c) (snd (canvas_add ob c))
              \<and> fabricCanvasRef s' = Some c' \<and> historyRef s' \<noteq> [] \<and> last (historyRef s') = J c'
              \<and> at_index (historyRef s') (historyIndexRef s') = Some (J c'))
         \<and> (activeObject c = Some a \<and> otype (heap c a) \<noteq> ''image'' \<and> hexColor \<noteq> [] \<longrightarrow>
             (\<forall>(s', f) \<in> set [(applySelectedColor J (Some hexColor) s, \<lambda>ob. ob\<lparr>fill := hexColor\<rparr>),
                               (setOpacity J v s, \<lambda>ob. ob\<lparr>opacity := v / 100\<rparr>),
                               (setBlendMode J m s, \<lambda>ob. ob\<lparr>globalCompositeOperation := m\<rparr>)].
               \<exists>c'. c' = obj_set a f c
                 \<and> fabricCanvasRef s' = Some c' \<and> historyRef s' \<noteq> [] \<and> last (historyRef s') = J c'
                 \<and> at_index (historyRef s') (historyIndexRef s') = Some (J c')))"
proof -
  have ok: "cursor_ok s" by (rule reachable_cursor_ok [OF r])
  note sv = saveHistory_snapshot [OF ok c, of J]
  note ad = add_shape_snapshot [OF ok c, of J]
  show ?thesis
  proof (intro conjI impI)
    show "\<forall>s' \<in> set [on_object_added J s, on_object_modified J s].
            fabricCanvasRef s' = Some c \<and> historyRef s' \<noteq> [] \<and> last (historyRef s') = J c
            \<and> at_index (historyRef s') (historyIndexRef s') = Some (J c)"
      using sv by (simp add: on_object_added_def on_object_modified_def)
  next
    show "\<forall>(s', ob) \<in> set [(addRectangle J col s, new_rect col), (addCircle J col s, new_circle col)].
            \<exists>c'. c' = setActiveObject (nextRef c) (snd (canvas_add ob c))
              \<and> fabricCanvasRef s' = Some c' \<and> historyRef s' \<noteq> [] \<and> last (historyRef s') = J c'
              \<and> at_index (historyRef s') (historyIndexRef s') = Some (J c')"
      using ad [of "new_rect col"] ad [of "new_circle col"]
      by (simp add: addRectangle_def addCircle_def)
  next
    assume g: "activeObject c = Some a \<and> otype (heap c a) \<noteq> ''image'' \<and> hexColor \<noteq> []"
    then have a: "activeObject c = Some a" and t: "otype (heap c a) \<noteq> ''image''"
      and h: "hexColor \<noteq> []" by auto
    note ed = edit_active_snapshot [OF ok a t, of J]
    show "\<forall>(s', f) \<in> set [(applySelectedColor J (Some hexColor) s, \<lambda>ob. ob\<lparr>fill := hexColor\<rparr>),
                               (setOpacity J v s, \<lambda>ob. ob\<lparr>opacity := v / 100\<rparr>),
                               (setBlendMode J m s, \<lambda>ob. ob\<lparr>globalCompositeOperation := m\<rparr>)].
               \<exists>c'. c' = obj_set a f c
                 \<and> fabricCanvasRef s' = Some c' \<and> historyRef s' \<noteq> [] \<and> last (historyRef s') = J c'
                 \<and> at_index (historyRef s') (historyIndexRef s') = Some (J c')"
      using ed [of "\<lambda>ob. ob\<lparr>fill := hexColor\<rparr>"] ed [of "\<lambda>ob. ob\<lparr>opacity := v / 100\<rparr>"]
        ed [of "\<lambda>ob. ob\<lparr>globalCompositeOperation := m\<rparr>"] c h
      by (simp add: applySelectedColor_def setOpacity_def setBlendMode_def)
  qed
qed

theorem mutation_saves_snapshot_witness:
  "reachable sample_toJSON sample_load sample_scene_ws
   \<and> fabricCanvasRef sample_scene_ws = Some sample_scene
   \<and> activeObject sample_scene = Some 1
   \<and> otype (heap sample_scene 1) = ''rect''
   \<and> historyRef (on_object_added sample_toJSON sample_scene_ws) = [''[image:;rect:#C0C0C0;]'']
   \<and> historyRef (on_object_modified sample_toJSON sample_scene_ws) = [''[image:;rect:#C0C0C0;]'']
   \<and> last (historyRef (addCircle sample_toJSON None sample_scene_ws))
       = ''[image:;rect:#C0C0C0;circle:#C0C0C0;]''
   \<and> historyRef (applySelectedColor sample_toJSON (Some ''#FF0000'') sample_scene_ws)
       = [''[image:;rect:#FF0000;]'']
   \<and> historyIndexRef (applySelectedColor sample_toJSON (Some ''#FF0000'') sample_scene_ws) = 0
   \<and> historyRef (setOpacity sample_toJSON 50 sample_scene_ws) = [''[image:;rect:#C0C0C0;]'']
   \<and> map_option (\<lambda>c. opacity (heap c 1)) (fabricCanvasRef (setOpacity sample_toJSON 50 sample_scene_ws))
       = Some (1 / 2)
   \<and> historyRef (setBlendMode sample_toJSON ''screen'' sample_scene_ws) = [''[image:;rect:#C0C0C0;]'']"
proof -
  have r: "reachable sample_toJSON sample_load sample_scene_ws"
    by (rule sample_scene_reachable)
  have c: "fabricCanvasRef sample_scene_ws = Some sample_scene"
    by (simp add: initial_workspace_def)
  show ?thesis
    using mutation_saves_snapshot [OF r c, of None 1 "''#FF0000''" 50 "''screen''"] r
    by (simp add: workspace_defs editing_defs)
qed

subsection \<open>C10: the editing operations leave image objects alone\<close>

text \<open>
  Claim C10: an object of type \<open>image\<close> on the canvas is neither mutated nor removed
  by colour application, \<open>setOpacity\<close>, \<open>setBlendMode\<close> or \<open>resetCanvas\<close>. The three
  setters leave the object list as it is and the image object unchanged, and do nothing
  at all when the image is the active object; \<open>resetCanvas\<close> leaves exactly the image
  objects on the canvas, in their order, each unchanged.
\<close>

theorem image_objects_kept:
  assumes c: "fabricCanvasRef s = Some c"
    and r: "r \<in> set (objects c)"
    and t: "otype (heap c r) = ''image''"
  shows "(\<forall>s' \<in> set [applySelectedColor J col s, setOpacity J v s, setBlendMode J m s].
            \<exists>c'. fabricCanvasRef s' = Some c' \<and> objects c' = objects c \<and> heap c' r = heap c r)
         \<and> (if activeObject c = Some r
             then applySelectedColor J col s = s \<and> setOpacity J v s = s \<and> setBlendMode J m s = s
             else True)
         \<and> (\<exists>c'. fabricCanvasRef (resetCanvas s) = Some c'
               \<and> objects c' = filter (\<lambda>q. otype (heap c q) = ''image'') (objects c)
               \<and> heap c' = heap c \<and> r \<in> set (objects c'))"
proof -
  have s: "s = s\<lparr>fabricCanvasRef := Some c\<rparr>" using c by simp
  have e: "\<And>f. \<exists>c'. fabricCanvasRef (edit_active J f c s) = Some c'
            \<and> objects c' = objects c \<and> heap c' r = heap c r"
    using edit_active_frame [OF t, of J _ s] s by simp
  have 1: "\<forall>s' \<in> set [applySelectedColor J col s, setOpacity J v s, setBlendMode J m s].
            \<exists>c'. fabricCanvasRef s' = Some c' \<and> objects c' = objects c \<and> heap c' r = heap c r"
    using e c
    by (auto simp add: applySelectedColor_def setOpacity_def setBlendMode_def split: option.splits)
  have 2: "activeObject c = Some r \<Longrightarrow>
      applySelectedColor J col s = s \<and> setOpacity J v s = s \<and> setBlendMode J m s = s"
    using c t
    by (auto simp add: applySelectedColor_def setOpacity_def setBlendMode_def edit_active_def
        split: option.splits)
  have 3: "\<exists>c'. fabricCanvasRef (resetCanvas s) = Some c'
               \<and> objects c' = filter (\<lambda>q. otype (heap c q) = ''image'') (objects c)
               \<and> heap c' = heap c \<and> r \<in> set (objects c')"
    using resetCanvas_result [OF c] r t by auto
  show ?thesis using 1 2 3 by simp
qed

theorem image_objects_kept_witness:
  "fabricCanvasRef sample_scene_ws = Some sample_scene
   \<and> 0 \<in> set (objects sample_scene)
   \<and> otype (heap sample_scene 0) = ''image''
   \<and> objects sample_scene = [0, 1]
   \<and> map_option objects (fabricCanvasRef (resetCanvas sample_scene_ws)) = Some [0]
   \<and> map_option (\<lambda>c. heap c 0) (fabricCanvasRef (resetCanvas sample_scene_ws)) = Some sample_image
   \<and> map_option (\<lambda>c. heap c 0) (fabricCanvasRef (setOpacity sample_toJSON 50 sample_scene_ws))
       = Some sample_image
   \<and> map_option (\<lambda>c. heap c 0)
         (fabricCanvasRef (applySelectedColor sample_toJSON (Some ''#FF0000'') sample_scene_ws))
       = Some sample_image
   \<and> map_option (\<lambda>c. heap c 0)
         (fabricCanvasRef (setBlendMode sample_toJSON ''screen'' sample_scene_ws))
       = Some sample_image
   \<and> map_option objects (fabricCanvasRef (setOpacity sample_toJSON 50 sample_scene_ws)) = Some [0, 1]
   \<and> activeObject (setActiveObject 0 sample_scene) = Some 0
   \<and> setOpacity sample_toJSON 50
         (initial_workspace\<lparr>fabricCanvasRef := Some (setActiveObject 0 sample_scene)\<rparr>)
       = initial_workspace\<lparr>fabricCanvasRef := Some (setActiveObject 0 sample_scene)\<rparr>"
proof -
  have c: "fabricCanvasRef sample_scene_ws = Some sample_scene"
    by (simp add: initial_workspace_def)
  have r: "0 \<in> set (objects sample_scene)"
    by (simp add: workspace_defs)
  have t: "otype (heap sample_scene 0) = ''image''"
    by (simp add: workspace_defs)
  have c': "fabricCanvasRef (initial_workspace\<lparr>fabricCanvasRef := Some (setActiveObject 0 sample_scene)\<rparr>)
            = Some (setActiveObject 0 sample_scene)"
    by (simp add: initial_workspace_def)
  have r': "0 \<in> set (objects (setActiveObject 0 sample_scene))"
    by (simp add: workspace_defs)
  have t': "otype (heap (setActiveObject 0 sample_scene) 0) = ''image''"
    by (simp add: workspace_defs)
  show ?thesis
    using image_objects_kept [OF c r t, of sample_toJSON "Some ''#FF0000''" 50 "''screen''"]
      image_objects_kept [OF c' r' t', of sample_toJSON "Some ''#FF0000''" 50 "''screen''"]
    by (simp add: workspace_defs editing_defs)
qed

section \<open>Properties of the HTTP routes\<close>

lemma map_if_no_match: "\<forall>x \<in> set xs. \<not> P x \<Longrightarrow> map (\<lambda>x. if P x then f x else x) xs = xs"
  by (induction xs) auto

lemma filter_hd_find: "filter P xs = y # ys \<Longrightarrow> find P xs = Some y"
  by (induction xs) (auto split: if_splits)

lemma find_take1: "(case take (Suc 0) (filter P xs) of [] \<Rightarrow> None | c # _ \<Rightarrow> Some c) = find P xs"
  by (induction xs) auto

lemma filter_map_set_canvas_state:
  "filter (\<lambda>c. state_projectId c = i)
     (map (\<lambda>c. if state_projectId c = i then set_canvas_state i v now c else c) cs)
   = map (set_canvas_state i v now) (filter (\<lambda>c. state_projectId c = i) cs)"
  by (induction cs) (simp_all add: set_canvas_state_def)

lemma state_id_map_set_canvas_state:
  "map state_id (map (\<lambda>c. if state_projectId c = i then set_canvas_state i v now c else c) cs)
   = map state_id cs"
  by (induction cs) (simp_all add: set_canvas_state_def)

lemma post_canvas_insert:
  assumes v: "S b = Inr v"
    and p: "i \<in> set (map project_id (projects db))"
    and e: "filter (\<lambda>c. state_projectId c = i) (canvasStates db) = []"
  shows "post_canvas S True newId now db i b
         = (\<lparr>status = 200, body = CanvasStateRow (new_canvas_state newId i v now)\<rparr>,
            db\<lparr>canvasStates := canvasStates db @ [new_canvas_state newId i v now]\<rparr>)"
  using p by (simp add: post_canvas_def v select_canvas_def e json_ok_def Let_def)

lemma post_canvas_update:
  assumes v: "S b = Inr v"
    and e: "filter (\<lambda>c. state_projectId c = i) (canvasStates db) = c0 # rest"
  shows "post_canvas S True newId now db i b
         = (\<lparr>status = 200, body = CanvasStateRow (set_canvas_state i v now c0)\<rparr>,
            db\<lparr>canvasStates :=
                 map (\<lambda>c. if state_projectId c = i then set_canvas_state i v now c else c)
                   (canvasStates db)\<rparr>)"
  by (simp add: post_canvas_def v select_canvas_def e json_ok_def)

lemmas response_defs = json_ok_def json_status_def Let_def

lemmas select_defs =
  select_project_def select_images_def select_regions_def select_canvas_def

subsection \<open>C5: an upload that is too large or of a disallowed type is answered 400\<close>

text \<open>
  Claim C5: for every \<open>POST /api/upload\<close> whose file exceeds 10MB (10 * 1024 * 1024
  bytes) or whose MIME type is not one of \<open>image/jpeg\<close>, \<open>image/jpg\<close>,
  \<open>image/png\<close>, \<open>image/gif\<close>, \<open>image/webp\<close>, the upload is rejected: the
  middleware yields an error, the handler does not run, nothing is written, and the
  response is 400 with the error's message. The filter and the limit are the route
  file's; the step from the middleware's error to the 400 response is
  \<open>upload_rejected\<close>, modelled from the spec.
\<close>

theorem upload_rejected_400:
  assumes "file_size file > 10 * 1024 * 1024
           \<or> mimetype file \<notin> set [''image/jpeg'', ''image/jpg'', ''image/png'', ''image/gif'', ''image/webp'']"
  shows "\<exists>err. upload_single (Some file) = Inl err
           \<and> error_message err \<noteq> []
           \<and> post_upload extLower uuid fsOk files (Some file)
               = (\<lparr>status = 400, body = Message (error_message err)\<rparr>, files)"
  using assms
  by (auto simp add: post_upload_def upload_single_def fileFilter_def ALLOWED_MIME_TYPES_def
        fileSize_limit_def upload_rejected_def json_status_def error_message_def)

theorem upload_rejected_400_witness:
  "mimetype sample_pdf \<notin> set [''image/jpeg'', ''image/jpg'', ''image/png'', ''image/gif'', ''image/webp'']
   \<and> post_upload (\<lambda>name. ''.pdf'') ''u1'' True Map.empty (Some sample_pdf)
       = (\<lparr>status = 400, body = (Message ''Invalid file type. Only images are allowed.'' :: unit payload)\<rparr>,
          Map.empty)
   \<and> file_size sample_big_png > 10 * 1024 * 1024
   \<and> post_upload (\<lambda>name. ''.png'') ''u2'' True Map.empty (Some sample_big_png)
       = (\<lparr>status = 400, body = (Message ''File too large'' :: unit payload)\<rparr>, Map.empty)"
proof -
  have a: "file_size sample_pdf > 10 * 1024 * 1024
           \<or> mimetype sample_pdf \<notin> set [''image/jpeg'', ''image/jpg'', ''image/png'', ''image/gif'', ''image/webp'']"
    by simp
  have b: "file_size sample_big_png > 10 * 1024 * 1024
           \<or> mimetype sample_big_png \<notin> set [''image/jpeg'', ''image/jpg'', ''image/png'', ''image/gif'', ''image/webp'']"
    by simp
  show ?thesis
    using upload_rejected_400 [OF a, of "\<lambda>name. ''.pdf''" "''u1''" True Map.empty]
      upload_rejected_400 [OF b, of "\<lambda>name. ''.png''" "''u2''" True Map.empty]
    by (simp add: response_defs post_upload_def upload_single_def upload_rejected_def
          fileFilter_def ALLOWED_MIME_TYPES_def fileSize_limit_def error_message_def)
qed

subsection \<open>C6: 404 for a project that is not stored, the aggregate for one that is\<close>

text \<open>
  Claim C6: when the database answers and no stored project has the id,
  \<open>GET /api/projects/:id\<close> returns 404, and so does \<open>PUT /api/projects/:id\<close> with a
  body that validates (the update matches no row and changes nothing). When a project
  has the id, GET returns 200 with the first such project, the images and the colour
  regions that reference the id, and the project's canvas state if there is one.
\<close>

theorem project_lookup:
  "(i \<notin> set (map project_id (projects db)) \<longrightarrow>
      get_project True db i = \<lparr>status = 404, body = Message ''Project not found''\<rparr>
      \<and> (insertProjectSchema reqBody = Inr validated \<longrightarrow>
           put_project insertProjectSchema True now db i reqBody
             = (\<lparr>status = 404, body = Message ''Project not found''\<rparr>, db)))
   \<and> (i \<in> set (map project_id (projects db)) \<longrightarrow>
      (\<exists>p. find (\<lambda>p. project_id p = i) (projects db) = Some p
         \<and> get_project True db i =
             \<lparr>status = 200,
              body = ProjectDetail p
                       (filter (\<lambda>x. image_projectId x = i) (projectImages db))
                       (filter (\<lambda>x. region_projectId x = i) (colorRegions db))
                       (find (\<lambda>x. state_projectId x = i) (canvasStates db))\<rparr>))"
proof (intro conjI impI)
  assume n: "i \<notin> set (map project_id (projects db))"
  then have f: "filter (\<lambda>p. project_id p = i) (projects db) = []"
    by (auto simp add: filter_empty_conv)
  show "get_project True db i = \<lparr>status = 404, body = Message ''Project not found''\<rparr>"
    by (simp add: get_project_def select_project_def f json_status_def)
next
  assume n: "i \<notin> set (map project_id (projects db))"
    and v: "insertProjectSchema reqBody = Inr validated"
  have "map (\<lambda>p. if project_id p = i then set_project validated now p else p) (projects db)
          = projects db"
    using n by (intro map_if_no_match) auto
  then have same: "update_project validated now i db = db"
    by (simp add: update_project_def)
  have f: "filter (\<lambda>p. project_id p = i) (projects db) = []"
    using n by (auto simp add: filter_empty_conv)
  show "put_project insertProjectSchema True now db i reqBody
             = (\<lparr>status = 404, body = Message ''Project not found''\<rparr>, db)"
    by (simp add: put_project_def v same f json_status_def)
next
  assume m: "i \<in> set (map project_id (projects db))"
  then obtain p ps where f: "filter (\<lambda>p. project_id p = i) (projects db) = p # ps"
    by (cases "filter (\<lambda>p. project_id p = i) (projects db)") (auto simp add: filter_empty_conv)
  have fp: "find (\<lambda>p. project_id p = i) (projects db) = Some p"
    by (rule filter_hd_find [OF f])
  show "\<exists>p. find (\<lambda>p. project_id p = i) (projects db) = Some p
         \<and> get_project True db i =
             \<lparr>status = 200,
              body = ProjectDetail p
                       (filter (\<lambda>x. image_projectId x = i) (projectImages db))
                       (filter (\<lambda>x. region_projectId x = i) (colorRegions db))
                       (find (\<lambda>x. state_projectId x = i) (canvasStates db))\<rparr>"
    using fp
    by (simp add: get_project_def select_project_def f json_ok_def select_images_def
          select_regions_def select_canvas_def find_take1)
qed

theorem project_lookup_witness:
  "''p9'' \<notin> set (map project_id (projects sample_db))
   \<and> get_project True sample_db ''p9''
       = \<lparr>status = 404, body = (Message ''Project not found'' :: unit payload)\<rparr>
   \<and> put_project (\<lambda>b. Inr b) True 9 sample_db ''p9''
         \<lparr>ip_name = ''Table'', ip_description = None, ip_previewImageUrl = None\<rparr>
       = (\<lparr>status = 404, body = (Message ''Project not found'' :: unit payload)\<rparr>, sample_db)
   \<and> ''p2'' \<in> set (map project_id (projects sample_db))
   \<and> get_project True sample_db ''p2''
       = \<lparr>status = 200,
          body = (ProjectDetail sample_project2 [sample_image2] [] (Some sample_state2) :: unit payload)\<rparr>"
proof -
  have v: "(\<lambda>b. Inr b :: unit + insert_project)
             \<lparr>ip_name = ''Table'', ip_description = None, ip_previewImageUrl = None\<rparr>
           = Inr \<lparr>ip_name = ''Table'', ip_description = None, ip_previewImageUrl = None\<rparr>"
    by simp
  show ?thesis
    using project_lookup [of "''p9''" sample_db "\<lambda>b. Inr b :: unit + insert_project"
        "\<lparr>ip_name = ''Table'', ip_description = None, ip_previewImageUrl = None\<rparr>"
        "\<lparr>ip_name = ''Table'', ip_description = None, ip_previewImageUrl = None\<rparr>" 9]
      project_lookup [of "''p2''" sample_db "\<lambda>b. Inr b :: unit + insert_project"
        "\<lparr>ip_name = ''Table'', ip_description = None, ip_previewImageUrl = None\<rparr>"
        "\<lparr>ip_name = ''Table'', ip_description = None, ip_previewImageUrl = None\<rparr>" 9] v
    by (simp add: response_defs select_defs get_project_def put_project_def
          update_project_def set_project_def)
qed

subsection \<open>C7: saving the canvas state is an upsert\<close>

text \<open>
  Claim C7: \<open>POST /api/projects/:id/canvas\<close> updates the project's canvas state row in
  place when one exists and inserts a new row otherwise. For an existing project with
  at most one canvas state row (the column is unique), two calls in a row with bodies
  that validate both answer 200; after the first there is exactly one row for the
  project, and the second rewrites that row where it stands (same rows, same ids)
  with the second body's canvas JSON, so exactly one row remains.
\<close>

theorem canvas_upsert:
  assumes v1: "insertCanvasStateSchema b1 = Inr v1"
    and v2: "insertCanvasStateSchema b2 = Inr v2"
    and p: "i \<in> set (map project_id (projects db))"
    and u: "length (filter (\<lambda>c. state_projectId c = i) (canvasStates db)) \<le> 1"
  shows "\<exists>r1 db1 r2 db2 row.
           post_canvas insertCanvasStateSchema True id1 t1 db i b1 = (r1, db1)
           \<and> post_canvas insertCanvasStateSchema True id2 t2 db1 i b2 = (r2, db2)
           \<and> status r1 = 200 \<and> status r2 = 200
           \<and> canvasStates db1 =
               (if filter (\<lambda>c. state_projectId c = i) (canvasStates db) = []
                then canvasStates db @ [new_canvas_state id1 i v1 t1]
                else map (\<lambda>c. if state_projectId c = i then set_canvas_state i v1 t1 c else c)
                       (canvasStates db))
           \<and> length (filter (\<lambda>c. state_projectId c = i) (canvasStates db1)) = 1
           \<and> canvasStates db2 =
                 map (\<lambda>c. if state_projectId c = i then set_canvas_state i v2 t2 c else c)
                   (canvasStates db1)
           \<and> map state_id (canvasStates db2) = map state_id (canvasStates db1)
           \<and> filter (\<lambda>c. state_projectId c = i) (canvasStates db2) = [row]
           \<and> body r2 = CanvasStateRow row
           \<and> canvasJson row = cf_canvasJson v2"
proof -
  let ?F = "\<lambda>d. filter (\<lambda>c. state_projectId c = i) (canvasStates d)"
  obtain r1 db1 where s1: "post_canvas insertCanvasStateSchema True id1 t1 db i b1 = (r1, db1)"
    by (cases "post_canvas insertCanvasStateSchema True id1 t1 db i b1") auto
  have first: "status r1 = 200
      \<and> canvasStates db1 =
               (if ?F db = []
                then canvasStates db @ [new_canvas_state id1 i v1 t1]
                else map (\<lambda>c. if state_projectId c = i then set_canvas_state i v1 t1 c else c)
                       (canvasStates db))
      \<and> length (?F db1) = 1"
  proof (cases "?F db")
    case Nil
    show ?thesis
      using post_canvas_insert [where S = insertCanvasStateSchema and b = b1 and newId = id1 and now = t1, OF v1 p Nil] s1 Nil
      by (auto simp add: new_canvas_state_def)
  next
    case (Cons c0 rest)
    then have rest: "rest = []" using u by simp
    show ?thesis
      using post_canvas_update [where S = insertCanvasStateSchema and b = b1 and newId = id1 and now = t1, OF v1 Cons] s1 Cons rest
      by (auto simp add: filter_map_set_canvas_state)
  qed
  then obtain c1 where f1: "?F db1 = [c1]"
    by (cases "?F db1") auto
  obtain r2 db2 where s2: "post_canvas insertCanvasStateSchema True id2 t2 db1 i b2 = (r2, db2)"
    by (cases "post_canvas insertCanvasStateSchema True id2 t2 db1 i b2") auto
  have second: "status r2 = 200
      \<and> canvasStates db2 =
            map (\<lambda>c. if state_projectId c = i then set_canvas_state i v2 t2 c else c)
              (canvasStates db1)
      \<and> body r2 = CanvasStateRow (set_canvas_state i v2 t2 c1)"
    using post_canvas_update [where S = insertCanvasStateSchema and b = b2 and newId = id2 and now = t2, OF v2 f1] s2 by auto
  have f2: "?F db2 = [set_canvas_state i v2 t2 c1]"
    using second f1 by (simp add: filter_map_set_canvas_state)
  have ids: "map state_id (canvasStates db2) = map state_id (canvasStates db1)"
    using second state_id_map_set_canvas_state [of i v2 t2 "canvasStates db1"] by simp
  have js: "canvasJson (set_canvas_state i v2 t2 c1) = cf_canvasJson v2"
    by (simp add: set_canvas_state_def)
  show ?thesis
    using s1 s2 first second f2 ids js by blast
qed

theorem canvas_upsert_witness:
  "''p1'' \<in> set (map project_id (projects sample_db))
   \<and> length (filter (\<lambda>c. state_projectId c = ''p1'') (canvasStates sample_db)) \<le> 1
   \<and> canvasStates (snd (post_canvas (\<lambda>b. Inr b :: unit + canvas_fields) True ''n1'' 7 sample_db ''p1''
         \<lparr>cf_canvasJson = ''{1}'', cf_zoom = None\<rparr>))
       = [sample_state2,
          \<lparr>state_id = ''n1'', state_projectId = ''p1'', canvasJson = ''{1}'', zoom = ''1'',
           state_updatedAt = 7\<rparr>]
   \<and> canvasStates (snd (post_canvas (\<lambda>b. Inr b :: unit + canvas_fields) True ''n2'' 8
         (snd (post_canvas (\<lambda>b. Inr b :: unit + canvas_fields) True ''n1'' 7 sample_db ''p1''
            \<lparr>cf_canvasJson = ''{1}'', cf_zoom = None\<rparr>))
         ''p1'' \<lparr>cf_canvasJson = ''{2}'', cf_zoom = Some ''2''\<rparr>))
       = [sample_state2,
          \<lparr>state_id = ''n1'', state_projectId = ''p1'', canvasJson = ''{2}'', zoom = ''2'',
           state_updatedAt = 8\<rparr>]
   \<and> ''p2'' \<in> set (map project_id (projects sample_db))
   \<and> canvasStates (snd (post_canvas (\<lambda>b. Inr b :: unit + canvas_fields) True ''n1'' 7 sample_db ''p2''
         \<lparr>cf_canvasJson = ''{1}'', cf_zoom = None\<rparr>))
       = [\<lparr>state_id = ''s2'', state_projectId = ''p2'', canvasJson = ''{1}'', zoom = ''1'',
           state_updatedAt = 7\<rparr>]"
proof -
  have v1: "(\<lambda>b. Inr b :: unit + canvas_fields) \<lparr>cf_canvasJson = ''{1}'', cf_zoom = None\<rparr>
            = Inr \<lparr>cf_canvasJson = ''{1}'', cf_zoom = None\<rparr>"
    by simp
  have v2: "(\<lambda>b. Inr b :: unit + canvas_fields) \<lparr>cf_canvasJson = ''{2}'', cf_zoom = Some ''2''\<rparr>
            = Inr \<lparr>cf_canvasJson = ''{2}'', cf_zoom = Some ''2''\<rparr>"
    by simp
  have p: "''p1'' \<in> set (map project_id (projects sample_db))"
    by simp
  have u: "length (filter (\<lambda>c. state_projectId c = ''p1'') (canvasStates sample_db)) \<le> 1"
    by simp
  have p': "''p2'' \<in> set (map project_id (projects sample_db))"
    by simp
  have u': "length (filter (\<lambda>c. state_projectId c = ''p2'') (canvasStates sample_db)) \<le> 1"
    by simp
  show ?thesis
    using canvas_upsert [where insertCanvasStateSchema = "\<lambda>b. Inr b :: unit + canvas_fields"
        and ?b1.0 = "\<lparr>cf_canvasJson = ''{1}'', cf_zoom = None\<rparr>"
        and ?b2.0 = "\<lparr>cf_canvasJson = ''{2}'', cf_zoom = Some ''2''\<rparr>"
        and ?id1.0 = "''n1''" and ?id2.0 = "''n2''" and ?t1.0 = 7 and ?t2.0 = 8,
        OF v1 v2 p u]
      canvas_upsert [where insertCanvasStateSchema = "\<lambda>b. Inr b :: unit + canvas_fields"
        and ?b1.0 = "\<lparr>cf_canvasJson = ''{1}'', cf_zoom = None\<rparr>"
        and ?b2.0 = "\<lparr>cf_canvasJson = ''{2}'', cf_zoom = Some ''2''\<rparr>"
        and ?id1.0 = "''n1''" and ?id2.0 = "''n2''" and ?t1.0 = 7 and ?t2.0 = 8,
        OF v1 v2 p' u']
    by (simp add: response_defs select_defs post_canvas_def set_canvas_state_def
          new_canvas_state_def)
qed

subsection \<open>C8: deleting a project cascades\<close>

text \<open>
  Claim C8: for every stored project, \<open>DELETE /api/projects/:id\<close> (when the database
  answers) returns 200 and removes the project row together with every image, colour
  region, canvas state and recent colour that references it; the rows of other
  projects stay, and no row that references the deleted id remains in any table.
\<close>

theorem delete_cascades:
  assumes "i \<in> set (map project_id (projects db))"
  shows "\<exists>db'. delete_project True db i
                 = (\<lparr>status = 200, body = Message ''Project deleted successfully''\<rparr>, db')
           \<and> projects db' = filter (\<lambda>p. project_id p \<noteq> i) (projects db)
           \<and> projectImages db' = filter (\<lambda>x. image_projectId x \<noteq> i) (projectImages db)
           \<and> colorRegions db' = filter (\<lambda>x. region_projectId x \<noteq> i) (colorRegions db)
           \<and> canvasStates db' = filter (\<lambda>x. state_projectId x \<noteq> i) (canvasStates db)
           \<and> recentColors db' = filter (\<lambda>x. recent_projectId x \<noteq> Some i) (recentColors db)
           \<and> i \<notin> set (map project_id (projects db'))
           \<and> i \<notin> set (map image_projectId (projectImages db'))
           \<and> i \<notin> set (map region_projectId (colorRegions db'))
           \<and> i \<notin> set (map state_projectId (canvasStates db'))
           \<and> Some i \<notin> set (map recent_projectId (recentColors db'))"
  using assms
  by (auto simp add: delete_project_def delete_project_rows_def json_ok_def Let_def)

theorem delete_cascades_witness:
  "''p1'' \<in> set (map project_id (projects sample_db))
   \<and> delete_project True sample_db ''p1''
       = (\<lparr>status = 200, body = (Message ''Project deleted successfully'' :: unit payload)\<rparr>,
          \<lparr>projects = [sample_project2],
           projectImages = [sample_image2],
           colorRegions = [],
           recentColors = [sample_recent2],
           canvasStates = [sample_state2]\<rparr>)"
proof -
  have p: "''p1'' \<in> set (map project_id (projects sample_db))"
    by simp
  show ?thesis
    using delete_cascades [OF p]
    by (simp add: response_defs delete_project_def delete_project_rows_def)
qed

end
